theory Spec2Isabelle
  imports Main
begin

section \<open>JavaScript strings and numbers\<close>

text \<open>
  A JavaScript string is a sequence of UTF-16 code units. It is modelled as a \<^typ>\<open>string\<close>
  in which every \<^typ>\<open>char\<close> stands for one code unit below 256 (the Latin-1 range), so
  \<open>length\<close> is the \<open>.length\<close> of the source. In that range the characters matched by
  \<open>\s\<close> and removed by \<open>trim\<close> are tab, line feed, vertical tab, form feed, carriage
  return, space and the no-break space; the line terminators (where \<open>.\<close> stops and the
  \<open>m\<close> flag lets \<open>^\<close> and \<open>$\<close> match) are line feed and carriage return.
\<close>

definition isWhiteSpace :: "char \<Rightarrow> bool" where
  "isWhiteSpace c \<longleftrightarrow>
     c \<in> set [CHR 0x09, CHR 0x0A, CHR 0x0B, CHR 0x0C, CHR 0x0D, CHR 0x20, CHR 0xA0]"

definition isLineTerminator :: "char \<Rightarrow> bool" where
  "isLineTerminator c \<longleftrightarrow> c = CHR 0x0A \<or> c = CHR 0x0D"

definition isNewline :: "char \<Rightarrow> bool" where
  "isNewline c \<longleftrightarrow> c = CHR 0x0A"

definition isDigit :: "char \<Rightarrow> bool" where
  "isDigit c \<longleftrightarrow> c \<in> set ''0123456789''"

definition trimStart :: "string \<Rightarrow> string" where
  "trimStart s = dropWhile isWhiteSpace s"

definition trimEnd :: "string \<Rightarrow> string" where
  "trimEnd s = rev (dropWhile isWhiteSpace (rev s))"

definition trim :: "string \<Rightarrow> string" where
  "trim s = trimEnd (trimStart s)"

definition lowerChar :: "char \<Rightarrow> char" where
  "lowerChar c =
     (let n = (of_char c :: nat)
      in if (65 \<le> n \<and> n \<le> 90) \<or> (192 \<le> n \<and> n \<le> 222 \<and> n \<noteq> 215)
         then char_of (n + 32) else c)"

definition toLowerCase :: "string \<Rightarrow> string" where
  "toLowerCase s = map lowerChar s"

definition startsWith :: "string \<Rightarrow> string \<Rightarrow> bool" where
  "startsWith s p \<longleftrightarrow> take (length p) s = p"

definition endsWith :: "string \<Rightarrow> string \<Rightarrow> bool" where
  "endsWith s p \<longleftrightarrow> length p \<le> length s \<and> drop (length s - length p) s = p"

text \<open>\<open>s.repeat(n)\<close> for a count that is a non-negative integer.\<close>

definition repeat :: "string \<Rightarrow> nat \<Rightarrow> string" where
  "repeat s n = concat (replicate n s)"

text \<open>\<open>xs.join(sep)\<close> and \<open>s.split(c)\<close> for a one-character separator.\<close>

fun join :: "string \<Rightarrow> string list \<Rightarrow> string" where
  "join sep [] = []"
| "join sep [x] = x"
| "join sep (x # y # ys) = x @ sep @ join sep (y # ys)"

fun split_acc :: "char \<Rightarrow> string \<Rightarrow> string \<Rightarrow> string list" where
  "split_acc d cur [] = [rev cur]"
| "split_acc d cur (c # cs) =
     (if c = d then rev cur # split_acc d [] cs else split_acc d (c # cur) cs)"

definition split :: "char \<Rightarrow> string \<Rightarrow> string list" where
  "split d s = split_acc d [] s"

text \<open>
  The errors the code can raise: the \<open>Error\<close> thrown by the constructor, and the
  \<open>TypeError\<close> and \<open>RangeError\<close> of the language (a property read on \<open>null\<close> or
  \<open>undefined\<close>; a negative repeat count or an invalid array length). \<open>Unmodelled\<close> is no
  error of the source: it is the answer of the model where it does not follow the code (a
  number beyond the integers a double holds exactly, a string whose length is up to the
  engine).
\<close>

datatype error = Error string | TypeError | RangeError | Unmodelled

text \<open>
  The numbers that reach the code come from \<open>parseInt\<close> and from adding its results. The
  source computes with doubles. A double holds every integer up to \<open>2 ^ 53\<close> in magnitude
  exactly, adds two of them exactly when the sum is in that range, and prints one in plain
  decimal. The model follows these integers and \<open>NaN\<close>; \<open>Beyond\<close> is a number outside
  that range, which the model does not determine.
\<close>

datatype jsnum = NaN | Num int | Beyond

definition exactInteger :: "int \<Rightarrow> jsnum" where
  "exactInteger n = (if \<bar>n\<bar> \<le> 9007199254740992 then Num n else Beyond)"

text \<open>
  An engine holds strings up to a length of its own. Where a count read from an attribute
  decides the length of a string, the model follows counts up to \<open>2 ^ 24\<close>.
\<close>

definition followedCount :: int where
  "followedCount = 16777216"

definition digitValue :: "char \<Rightarrow> int" where
  "digitValue c = int (of_char c) - 48"

definition parseInt :: "string \<Rightarrow> jsnum" where
  "parseInt str =
     (let S = trimStart str;
          sign = (if S \<noteq> [] \<and> hd S = CHR ''-'' then - 1 else 1 :: int);
          S = (if S \<noteq> [] \<and> (hd S = CHR ''+'' \<or> hd S = CHR ''-'') then tl S else S);
          Z = takeWhile isDigit S
      in if Z = [] then NaN
         else exactInteger (sign * foldl (\<lambda>a c. a * 10 + digitValue c) 0 Z))"

text \<open>\<open>s.repeat(count)\<close> for a count that is any number: \<open>NaN\<close> counts as 0, a negative
  count raises.\<close>

definition repeat_num :: "string \<Rightarrow> jsnum \<Rightarrow> error + string" where
  "repeat_num s c =
     (case c of
        NaN \<Rightarrow> Inr []
      | Num n \<Rightarrow>
          if n < 0 then Inl RangeError
          else if followedCount < n then Inl Unmodelled
          else Inr (repeat s (nat n))
      | Beyond \<Rightarrow> Inl Unmodelled)"

text \<open>\<open>Array(n).fill(x).join(sep)\<close>: the array constructor raises unless \<open>n\<close> is an
  integer from 0 to \<open>2 ^ 32 - 1\<close>.\<close>

definition Array_fill_join :: "jsnum \<Rightarrow> string \<Rightarrow> string \<Rightarrow> error + string" where
  "Array_fill_join c x sep =
     (case c of
        NaN \<Rightarrow> Inl RangeError
      | Num n \<Rightarrow>
          if n < 0 \<or> 4294967295 < n then Inl RangeError
          else if followedCount < n then Inl Unmodelled
          else Inr (join sep (replicate (nat n) x))
      | Beyond \<Rightarrow> Inl Unmodelled)"

text \<open>Number to string, for an integer.\<close>

fun digits :: "nat \<Rightarrow> string" where
  "digits n =
     (if n < 10 then [char_of (48 + n)] else digits (n div 10) @ [char_of (48 + n mod 10)])"

declare digits.simps [simp del]

definition decimal :: "int \<Rightarrow> string" where
  "decimal n = (if n < 0 then CHR ''-'' # digits (nat (- n)) else digits (nat n))"

definition numberToString :: "jsnum \<Rightarrow> error + string" where
  "numberToString c =
     (case c of
        NaN \<Rightarrow> Inr ''NaN''
      | Num n \<Rightarrow> Inr (decimal n)
      | Beyond \<Rightarrow> Inl Unmodelled)"

text \<open>\<open>a + b\<close> for numbers: \<open>NaN\<close> if either is.\<close>

definition num_add :: "jsnum \<Rightarrow> jsnum \<Rightarrow> jsnum" where
  "num_add a b =
     (case (a, b) of
        (NaN, y) \<Rightarrow> NaN
      | (x, NaN) \<Rightarrow> NaN
      | (Num x, Num y) \<Rightarrow> exactInteger (x + y)
      | (x, y) \<Rightarrow> Beyond)"

section \<open>Regular-expression replacements of the source\<close>

text \<open>\<open>text.replace(/\n+$/, '')\<close> and \<open>text.replace(/^\n+/, '')\<close>.\<close>

definition replace_trailing_newlines :: "string \<Rightarrow> string" where
  "replace_trailing_newlines s = rev (dropWhile isNewline (rev s))"

definition replace_leading_newlines :: "string \<Rightarrow> string" where
  "replace_leading_newlines s = dropWhile isNewline s"

text \<open>\<open>text.replace(/[\t \r\n]+/g, " ")\<close> and \<open>text.replace(/[\t ]+/g, " ")\<close>: every maximal
  run of the class becomes one replacement.\<close>

function replace_runs :: "(char \<Rightarrow> bool) \<Rightarrow> string \<Rightarrow> string \<Rightarrow> string" where
  "replace_runs P r [] = []"
| "replace_runs P r (c # cs) =
     (if P c then r @ replace_runs P r (dropWhile P cs) else c # replace_runs P r cs)"
  by pat_completeness auto
termination
  by (relation "measure (\<lambda>(P, r, s). length s)")
     (auto simp: le_imp_less_Suc length_dropWhile_le)

definition isAllWhitespaceChar :: "char \<Rightarrow> bool" where
  "isAllWhitespaceChar c \<longleftrightarrow> c \<in> set [CHR 0x09, CHR 0x20, CHR 0x0D, CHR 0x0A]"

definition isTabOrSpace :: "char \<Rightarrow> bool" where
  "isTabOrSpace c \<longleftrightarrow> c = CHR 0x09 \<or> c = CHR 0x20"

definition replace_allWhitespace :: "string \<Rightarrow> string" where
  "replace_allWhitespace s = replace_runs isAllWhitespaceChar '' '' s"

definition replace_whitespace :: "string \<Rightarrow> string" where
  "replace_whitespace s = replace_runs isTabOrSpace '' '' s"

text \<open>\<open>text.replace(/[\t \r\n]*[\r\n][\t \r\n]*/g, "\n")\<close>: a maximal run of the class
  that holds a line break becomes one line feed; a run without one is left as it is.\<close>

function replace_newlineWhitespace :: "string \<Rightarrow> string" where
  "replace_newlineWhitespace [] = []"
| "replace_newlineWhitespace (c # cs) =
     (if isAllWhitespaceChar c then
        (let run = c # takeWhile isAllWhitespaceChar cs;
             rest = dropWhile isAllWhitespaceChar cs
         in if \<exists>x \<in> set run. isLineTerminator x
            then CHR 0x0A # replace_newlineWhitespace rest
            else run @ replace_newlineWhitespace rest)
      else c # replace_newlineWhitespace cs)"
  by pat_completeness auto
termination
  by (relation "measure length") (auto simp: le_imp_less_Suc length_dropWhile_le)

text \<open>\<open>text.replace(/^(.*)$/gm, (match, p1) => f(p1))\<close>: every line, the empty ones too,
  is replaced by \<open>f\<close> of it, and the line terminators stay.\<close>

function replace_lines :: "(string \<Rightarrow> string) \<Rightarrow> string \<Rightarrow> string" where
  "replace_lines f s =
     (let line = takeWhile (\<lambda>c. \<not> isLineTerminator c) s;
          rest = dropWhile (\<lambda>c. \<not> isLineTerminator c) s
      in f line @ (case rest of [] \<Rightarrow> [] | t # rest' \<Rightarrow> t # replace_lines f rest'))"
  by pat_completeness auto
termination
proof (relation "measure (\<lambda>(f, s). length s)")
  show "wf (measure (\<lambda>(f, s). length s))" by simp
next
  fix f :: "string \<Rightarrow> string" and s x xa x21 x22
  assume "xa = dropWhile (\<lambda>c. \<not> isLineTerminator c) s" and "xa = x21 # x22"
  then have "length (x21 # x22) \<le> length s"
    by (metis length_dropWhile_le)
  then show "((f, x22), (f, s)) \<in> measure (\<lambda>(f, s). length s)" by simp
qed

declare replace_lines.simps [simp del]

section \<open>The escaper's replacements\<close>

text \<open>
  The three patterns of \<open>escape_misc\<close> that start with \<open>(\s|^)\<close> share one scan. A matcher
  looks at the text after that boundary and answers how many characters are copied before
  the backslash and how many after it. The scan tries every position from the left; a match
  consumes its characters, and the search goes on behind it. Without the \<open>m\<close> flag \<open>^\<close>
  matches at the start of the text only, and the alternative \<open>\s\<close> is tried before it.
\<close>

fun scan_after_space :: "(string \<Rightarrow> (nat \<times> nat) option) \<Rightarrow> string \<Rightarrow> string" where
  "scan_after_space m [] = []"
| "scan_after_space m (c # cs) =
     (if isWhiteSpace c then
        (case m cs of
           Some (a, b) \<Rightarrow>
             c # take a cs @ CHR 0x5C # take b (drop a cs) @ scan_after_space m (drop (a + b) cs)
         | None \<Rightarrow> c # scan_after_space m cs)
      else c # scan_after_space m cs)"

definition replace_at_boundary :: "(string \<Rightarrow> (nat \<times> nat) option) \<Rightarrow> string \<Rightarrow> string" where
  "replace_at_boundary m s =
     (if s \<noteq> [] \<and> isWhiteSpace (hd s) \<and> m (tl s) \<noteq> None then scan_after_space m s
      else (case m s of
              Some (a, b) \<Rightarrow>
                take a s @ CHR 0x5C # take b (drop a s) @ scan_after_space m (drop (a + b) s)
            | None \<Rightarrow> scan_after_space m s))"

text \<open>\<open>-+(?:\s|$)\<close>: a run of hyphens up to white space or the end of the text.\<close>

definition match_hyphens :: "string \<Rightarrow> (nat \<times> nat) option" where
  "match_hyphens s =
     (let k = length (takeWhile (\<lambda>c. c = CHR ''-'') s); rest = drop k s
      in if 1 \<le> k \<and> (rest = [] \<or> isWhiteSpace (hd rest))
         then Some (0, k + (if rest = [] then 0 else 1)) else None)"

text \<open>\<open>#{1,6}(?:\s|$)\<close>: one to six hashes up to white space or the end of the text.\<close>

definition match_hashes :: "string \<Rightarrow> (nat \<times> nat) option" where
  "match_hashes s =
     (let k = length (takeWhile (\<lambda>c. c = CHR ''#'') s); rest = drop k s
      in if 1 \<le> k \<and> k \<le> 6 \<and> (rest = [] \<or> isWhiteSpace (hd rest))
         then Some (0, k + (if rest = [] then 0 else 1)) else None)"

text \<open>\<open>[0-9]{1,9}\<close> copied, then the backslash, then \<open>[.)](?:\s|$)\<close>.\<close>

definition match_ordinal :: "string \<Rightarrow> (nat \<times> nat) option" where
  "match_ordinal s =
     (let d = length (takeWhile isDigit s); rest = drop d s
      in if 1 \<le> d \<and> d \<le> 9 \<and> rest \<noteq> [] \<and> (hd rest = CHR ''.'' \<or> hd rest = CHR '')'')
            \<and> (tl rest = [] \<or> isWhiteSpace (hd (tl rest)))
         then Some (d, 1 + (if tl rest = [] then 0 else 1)) else None)"

text \<open>\<open>text.replace(/([\\&<`\[\]>~=+|])/g, "\\$1")\<close>, and the replacement of every
  occurrence of one character by a backslash and that character.\<close>

definition isMiscChar :: "char \<Rightarrow> bool" where
  "isMiscChar c \<longleftrightarrow> c \<in> set (CHR 0x5C # ''&<`[]>~=+|'')"

definition backslash_each :: "(char \<Rightarrow> bool) \<Rightarrow> string \<Rightarrow> string" where
  "backslash_each P s = concat (map (\<lambda>c. if P c then [CHR 0x5C, c] else [c]) s)"

text \<open>\<open>chompedText.replace(/\\_/g, "_")\<close>.\<close>

fun replace_escaped_underscores :: "string \<Rightarrow> string" where
  "replace_escaped_underscores (a # b # cs) =
     (if a = CHR 0x5C \<and> b = CHR ''_'' then CHR ''_'' # replace_escaped_underscores cs
      else a # replace_escaped_underscores (b # cs))"
| "replace_escaped_underscores cs = cs"

text \<open>\<open>title.replace(/"/g, '\\"')\<close> and \<open>text.replace(/\n/g, " ")\<close>.\<close>

definition escape_quotes :: "string \<Rightarrow> string" where
  "escape_quotes s = backslash_each (\<lambda>c. c = CHR 0x22) s"

definition newlines_to_spaces :: "string \<Rightarrow> string" where
  "newlines_to_spaces s = map (\<lambda>c. if c = CHR 0x0A then CHR '' '' else c) s"

section \<open>The node tree\<close>

text \<open>
  The converter reads a DOM tree it does not own. A node is an element (tag name, attributes
  in order, child nodes), a text node, a comment, the document type node of an HTML document
  (its node name is \<open>html\<close>), or a document or document fragment (child nodes, no tag name).
\<close>

datatype node =
    Element string "(string \<times> string) list" "node list"
  | Text string
  | Comment string
  | DocumentType
  | Fragment "node list"

fun tagName :: "node \<Rightarrow> string option" where
  "tagName (Element t as cs) = Some t"
| "tagName n = None"

fun nodeName :: "node \<Rightarrow> string" where
  "nodeName (Element t as cs) = t"
| "nodeName (Text v) = ''#text''"
| "nodeName (Comment v) = ''#comment''"
| "nodeName DocumentType = ''html''"
| "nodeName (Fragment cs) = ''#document-fragment''"

fun childNodes :: "node \<Rightarrow> node list" where
  "childNodes (Element t as cs) = cs"
| "childNodes (Fragment cs) = cs"
| "childNodes n = []"

fun isElement :: "node \<Rightarrow> bool" where
  "isElement (Element t as cs) = True"
| "isElement n = False"

fun getAttribute :: "node \<Rightarrow> string \<Rightarrow> string option" where
  "getAttribute (Element t as cs) name = map_of as name"
| "getAttribute n name = None"

definition children :: "node \<Rightarrow> node list" where
  "children n = filter isElement (childNodes n)"

text \<open>The lower-case tag name of a node, the empty string for a node without one.\<close>

definition lowerTagName :: "node \<Rightarrow> string" where
  "lowerTagName n = (case tagName n of Some t \<Rightarrow> toLowerCase t | None \<Rightarrow> [])"

text \<open>
  The source reaches a node's parent and siblings through back-references. Here a node comes
  with its context: one frame per ancestor, the parent first. A frame holds the parent's own
  data and the node's siblings: those before it, the nearest first, and those after it.
  The empty context is that of a detached node.
\<close>

datatype container = ElementC string "(string \<times> string) list" | FragmentC

record frame =
  parent :: container
  before :: "node list"
  after :: "node list"

type_synonym "context" = "frame list"

fun containerOf :: "node \<Rightarrow> container" where
  "containerOf (Element t as cs) = ElementC t as"
| "containerOf n = FragmentC"

fun containerTag :: "container \<Rightarrow> string option" where
  "containerTag (ElementC t as) = Some t"
| "containerTag FragmentC = None"

text \<open>The node a frame describes the inside of, given the child the frame belongs to.\<close>

definition rebuild :: "frame \<Rightarrow> node \<Rightarrow> node" where
  "rebuild fr self =
     (case parent fr of
        ElementC t as \<Rightarrow> Element t as (rev (before fr) @ self # after fr)
      | FragmentC \<Rightarrow> Fragment (rev (before fr) @ self # after fr))"

definition parentNode :: "context \<Rightarrow> container option" where
  "parentNode ctx = (case ctx of [] \<Rightarrow> None | fr # up \<Rightarrow> Some (parent fr))"

definition parentTag :: "context \<Rightarrow> string option" where
  "parentTag ctx = (case parentNode ctx of None \<Rightarrow> None | Some p \<Rightarrow> containerTag p)"

definition previousSibling :: "context \<Rightarrow> node option" where
  "previousSibling ctx =
     (case ctx of [] \<Rightarrow> None
      | fr # up \<Rightarrow> (case before fr of [] \<Rightarrow> None | p # ps \<Rightarrow> Some p))"

definition nextSibling :: "context \<Rightarrow> node option" where
  "nextSibling ctx =
     (case ctx of [] \<Rightarrow> None
      | fr # up \<Rightarrow> (case after fr of [] \<Rightarrow> None | n # ns \<Rightarrow> Some n))"

definition previousElementSibling :: "context \<Rightarrow> node option" where
  "previousElementSibling ctx =
     (case ctx of [] \<Rightarrow> None | fr # up \<Rightarrow> find isElement (before fr))"

text \<open>\<open>findAncestor\<close>: the nearest ancestor element whose lower-case tag name is listed.\<close>

fun findAncestor :: "context \<Rightarrow> string list \<Rightarrow> container option" where
  "findAncestor [] tagNames = None"
| "findAncestor (fr # up) tagNames =
     (case parent fr of
        ElementC t as \<Rightarrow>
          if toLowerCase t \<in> set tagNames then Some (parent fr) else findAncestor up tagNames
      | FragmentC \<Rightarrow> findAncestor up tagNames)"

fun isBlockContent :: "node \<Rightarrow> bool" where
  "isBlockContent (Element t as cs) = True"
| "isBlockContent (Comment v) = False"
| "isBlockContent DocumentType = False"
| "isBlockContent (Text v) = (trim v \<noteq> [])"
| "isBlockContent (Fragment cs) = False"

definition prevBlockContentSibling :: "context \<Rightarrow> node option" where
  "prevBlockContentSibling ctx =
     (case ctx of [] \<Rightarrow> None | fr # up \<Rightarrow> find isBlockContent (before fr))"

definition nextBlockContentSibling :: "context \<Rightarrow> node option" where
  "nextBlockContentSibling ctx =
     (case ctx of [] \<Rightarrow> None | fr # up \<Rightarrow> find isBlockContent (after fr))"

text \<open>\<open>/^h[1-6]$/.test(tag)\<close>.\<close>

definition htmlHeadingRe :: "string \<Rightarrow> bool" where
  "htmlHeadingRe tag \<longleftrightarrow>
     (case tag of [h, d] \<Rightarrow> h = CHR ''h'' \<and> d \<in> set ''123456'' | _ \<Rightarrow> False)"

text \<open>\<open>shouldRemoveWhitespaceInside\<close> takes the tag name of its argument, \<open>None\<close> when the
  argument is \<open>null\<close> or has no tag name.\<close>

definition shouldRemoveWhitespaceInside :: "string option \<Rightarrow> bool" where
  "shouldRemoveWhitespaceInside el =
     (case el of
        None \<Rightarrow> False
      | Some t \<Rightarrow>
          (let tag = toLowerCase t
           in if htmlHeadingRe tag then True
              else tag \<in> set [''p'', ''blockquote'', ''article'', ''div'', ''section'', ''ol'',
                     ''ul'', ''li'', ''table'', ''thead'', ''tbody'', ''tfoot'', ''tr'', ''td'',
                     ''th'']))"

definition shouldRemoveWhitespaceOutside :: "node option \<Rightarrow> bool" where
  "shouldRemoveWhitespaceOutside el =
     (case el of
        None \<Rightarrow> False
      | Some n \<Rightarrow>
          if \<not> isElement n then False
          else shouldRemoveWhitespaceInside (tagName n) \<or> lowerTagName n = ''pre'')"

section \<open>Helper functions\<close>

text \<open>\<open>chomp\<close>: the leading and the trailing space of a text, recorded apart from the
  trimmed text.\<close>

definition chomp :: "string \<Rightarrow> string \<times> string \<times> string" where
  "chomp text =
     (let prefix = (if text \<noteq> [] \<and> hd text = CHR '' '' then '' '' else []);
          suffix = (if text \<noteq> [] \<and> last text = CHR '' '' then '' '' else []);
          trimmed = trim text
      in (prefix, suffix, trimmed))"

text \<open>\<open>abstractInlineConversion\<close>; the markup function of the source is called without
  arguments, so its result is passed.\<close>

definition abstractInlineConversion :: "string \<Rightarrow> context \<Rightarrow> string \<Rightarrow> string" where
  "abstractInlineConversion markup ctx text =
     (if findAncestor ctx [''pre'', ''code'', ''kbd'', ''samp''] \<noteq> None then text
      else
        (case chomp text of
           (prefix, suffix, chompedText) \<Rightarrow>
             if chompedText = [] then []
             else
               (let markupPrefix = markup;
                    markupSuffix =
                      (if startsWith markupPrefix ''<'' \<and> endsWith markupPrefix ''>''
                       then ''</'' @ drop 1 markupPrefix else markupPrefix)
                in prefix @ markupPrefix @ chompedText @ markupSuffix @ suffix)))"

text \<open>\<open>wordWrap\<close>, the loop over the words first.\<close>

fun wordWrap_loop :: "int \<Rightarrow> string list \<Rightarrow> string list \<Rightarrow> string \<Rightarrow> string list \<times> string" where
  "wordWrap_loop width [] lines currentLine = (lines, currentLine)"
| "wordWrap_loop width (word # ws) lines currentLine =
     (if int (length (currentLine @ word)) > width
      then wordWrap_loop width ws (lines @ [trim currentLine]) (word @ '' '')
      else wordWrap_loop width ws lines (currentLine @ word @ '' ''))"

definition wordWrap :: "string \<Rightarrow> int \<Rightarrow> string" where
  "wordWrap str width =
     (case wordWrap_loop width (split CHR '' '' str) [] [] of
        (lines, currentLine) \<Rightarrow>
          join [CHR 0x0A] (if currentLine \<noteq> [] then lines @ [trim currentLine] else lines))"

section \<open>The converter's options\<close>

text \<open>
  \<open>this.options\<close>. The lists \<open>convert\<close> and \<open>strip\<close> and the number \<open>wrap_width\<close> may be
  \<open>null\<close> (\<open>None\<close>); the callback is \<open>null\<close> or a function of the element, which the model
  hands over with its context.
\<close>

record options =
  autolinks :: bool
  bullets :: string
  code_language :: string
  code_language_callback :: "(frame list \<Rightarrow> node \<Rightarrow> string) option"
  convert :: "string list option"
  default_title :: bool
  escape_asterisks :: bool
  escape_underscores :: bool
  escape_misc :: bool
  heading_style :: string
  keep_inline_images_in :: "string list"
  newline_style :: string
  strip :: "string list option"
  strip_document :: string
  strong_em_symbol :: string
  sub_symbol :: string
  sup_symbol :: string
  table_infer_header :: bool
  wrap :: bool
  wrap_width :: "int option"

definition defaults :: options where
  "defaults =
     \<lparr> autolinks = True, bullets = ''*+-'', code_language = [],
       code_language_callback = None, convert = None, default_title = False,
       escape_asterisks = True, escape_underscores = True, escape_misc = False,
       heading_style = ''underlined'', keep_inline_images_in = [],
       newline_style = ''spaces'', strip = None, strip_document = ''strip'',
       strong_em_symbol = ''*'', sub_symbol = [], sup_symbol = [],
       table_infer_header = False, wrap = False, wrap_width = Some 80 \<rparr>"

text \<open>The object the caller passes to the constructor: each key is there (\<open>Some\<close>) or not.\<close>

record given_options =
  given_autolinks :: "bool option"
  given_bullets :: "string option"
  given_code_language :: "string option"
  given_code_language_callback :: "(frame list \<Rightarrow> node \<Rightarrow> string) option option"
  given_convert :: "string list option option"
  given_default_title :: "bool option"
  given_escape_asterisks :: "bool option"
  given_escape_underscores :: "bool option"
  given_escape_misc :: "bool option"
  given_heading_style :: "string option"
  given_keep_inline_images_in :: "string list option"
  given_newline_style :: "string option"
  given_strip :: "string list option option"
  given_strip_document :: "string option"
  given_strong_em_symbol :: "string option"
  given_sub_symbol :: "string option"
  given_sup_symbol :: "string option"
  given_table_infer_header :: "bool option"
  given_wrap :: "bool option"
  given_wrap_width :: "int option option"

definition no_options :: given_options where
  "no_options =
     \<lparr> given_autolinks = None, given_bullets = None, given_code_language = None,
       given_code_language_callback = None, given_convert = None, given_default_title = None,
       given_escape_asterisks = None, given_escape_underscores = None,
       given_escape_misc = None, given_heading_style = None,
       given_keep_inline_images_in = None, given_newline_style = None, given_strip = None,
       given_strip_document = None, given_strong_em_symbol = None, given_sub_symbol = None,
       given_sup_symbol = None, given_table_infer_header = None, given_wrap = None,
       given_wrap_width = None \<rparr>"

definition orDefault :: "'a option \<Rightarrow> 'a \<Rightarrow> 'a" where
  "orDefault given d = (case given of None \<Rightarrow> d | Some v \<Rightarrow> v)"

text \<open>\<open>Object.assign(target, source)\<close>: every key of the source overrides the target's.\<close>

definition Object_assign :: "options \<Rightarrow> given_options \<Rightarrow> options" where
  "Object_assign d g =
     \<lparr> autolinks = orDefault (given_autolinks g) (autolinks d),
       bullets = orDefault (given_bullets g) (bullets d),
       code_language = orDefault (given_code_language g) (code_language d),
       code_language_callback =
         orDefault (given_code_language_callback g) (code_language_callback d),
       convert = orDefault (given_convert g) (convert d),
       default_title = orDefault (given_default_title g) (default_title d),
       escape_asterisks = orDefault (given_escape_asterisks g) (escape_asterisks d),
       escape_underscores = orDefault (given_escape_underscores g) (escape_underscores d),
       escape_misc = orDefault (given_escape_misc g) (escape_misc d),
       heading_style = orDefault (given_heading_style g) (heading_style d),
       keep_inline_images_in =
         orDefault (given_keep_inline_images_in g) (keep_inline_images_in d),
       newline_style = orDefault (given_newline_style g) (newline_style d),
       strip = orDefault (given_strip g) (strip d),
       strip_document = orDefault (given_strip_document g) (strip_document d),
       strong_em_symbol = orDefault (given_strong_em_symbol g) (strong_em_symbol d),
       sub_symbol = orDefault (given_sub_symbol g) (sub_symbol d),
       sup_symbol = orDefault (given_sup_symbol g) (sup_symbol d),
       table_infer_header = orDefault (given_table_infer_header g) (table_infer_header d),
       wrap = orDefault (given_wrap g) (wrap d),
       wrap_width = orDefault (given_wrap_width g) (wrap_width d) \<rparr>"

text \<open>The constructor. A converter has no state but its options, so the constructed object
  is the options record; a constructor that throws yields no object.\<close>

definition MarkdownConverter :: "given_options \<Rightarrow> error + options" where
  "MarkdownConverter given =
     (let this_options = Object_assign defaults given
      in if strip this_options \<noteq> None \<and> convert this_options \<noteq> None
         then Inl (Error
           ''You may specify either tags to strip or tags to convert, but not both.'')
         else Inr this_options)"

section \<open>Text nodes\<close>

definition shouldConvertTag :: "options \<Rightarrow> string \<Rightarrow> bool" where
  "shouldConvertTag opts tag =
     (let lowerTag = (if tag \<noteq> [] then toLowerCase tag else [])
      in case strip opts of
           Some tags \<Rightarrow> lowerTag \<notin> set tags
         | None \<Rightarrow>
             (case convert opts of
                Some tags \<Rightarrow> lowerTag \<in> set tags
              | None \<Rightarrow> True))"

definition escape :: "options \<Rightarrow> string \<Rightarrow> string" where
  "escape opts text =
     (if text = [] then []
      else
        (let text =
               (if escape_misc opts
                then replace_at_boundary match_ordinal
                       (replace_at_boundary match_hashes
                         (replace_at_boundary match_hyphens (backslash_each isMiscChar text)))
                else text);
             text =
               (if escape_asterisks opts then backslash_each (\<lambda>c. c = CHR ''*'') text
                else text);
             text =
               (if escape_underscores opts then backslash_each (\<lambda>c. c = CHR ''_'') text
                else text)
         in text))"

text \<open>\<open>processText\<close>, on the value of a text node and the node's context.\<close>

definition processText :: "options \<Rightarrow> frame list \<Rightarrow> string \<Rightarrow> string" where
  "processText opts ctx nodeValue =
     (let text = nodeValue;
          text =
            (if findAncestor ctx [''pre''] = None
             then (if wrap opts then replace_allWhitespace text
                   else replace_whitespace (replace_newlineWhitespace text))
             else text);
          text =
            (if findAncestor ctx [''pre'', ''code'', ''kbd'', ''samp''] = None
             then escape opts text else text);
          text =
            (if shouldRemoveWhitespaceOutside (previousSibling ctx)
                \<or> (parentNode ctx \<noteq> None \<and> shouldRemoveWhitespaceInside (parentTag ctx)
                    \<and> previousSibling ctx = None)
             then dropWhile isWhiteSpace text else text);
          text =
            (if shouldRemoveWhitespaceOutside (nextSibling ctx)
                \<or> (parentNode ctx \<noteq> None \<and> shouldRemoveWhitespaceInside (parentTag ctx)
                    \<and> nextSibling ctx = None)
             then rev (dropWhile isWhiteSpace (rev text)) else text)
      in text)"

section \<open>The conversion rules\<close>

text \<open>
  Every rule takes the options, the element with its context, the text its children were
  converted to, and the inline flag. A rule that reads a property of something that may be
  \<open>null\<close> or \<open>undefined\<close>, or repeats a string a computed number of times, can raise.
\<close>

definition truthy :: "string option \<Rightarrow> bool" where
  "truthy v \<longleftrightarrow> (case v of None \<Rightarrow> False | Some x \<Rightarrow> x \<noteq> [])"

text \<open>A value inside a template literal: \<open>null\<close> prints as \<open>null\<close>.\<close>

definition template :: "string option \<Rightarrow> string" where
  "template v = (case v of None \<Rightarrow> ''null'' | Some x \<Rightarrow> x)"

definition orEmpty :: "string option \<Rightarrow> string" where
  "orEmpty v = (case v of None \<Rightarrow> [] | Some x \<Rightarrow> x)"

definition underline :: "string \<Rightarrow> string \<Rightarrow> string" where
  "underline text padChar =
     (let text = trimEnd text
      in if text \<noteq> []
         then ''\<newline>\<newline>'' @ text @ ''\<newline>'' @ repeat padChar (length text)
              @ ''\<newline>\<newline>''
         else [])"

definition titlePart :: "string option \<Rightarrow> string" where
  "titlePart title =
     (if truthy title then '' '' @ [CHR 0x22] @ escape_quotes (orEmpty title) @ [CHR 0x22]
      else [])"

definition convert_a :: "options \<Rightarrow> frame list \<Rightarrow> node \<Rightarrow> string \<Rightarrow> bool \<Rightarrow> string" where
  "convert_a opts ctx el text convertAsInline =
     (if findAncestor ctx [''pre'', ''code'', ''kbd'', ''samp''] \<noteq> None then text
      else
        (case chomp text of
           (prefix, suffix, chompedText) \<Rightarrow>
             if chompedText = [] then []
             else
               (let href = getAttribute el ''href'';
                    title = getAttribute el ''title''
                in if autolinks opts \<and> Some (replace_escaped_underscores chompedText) = href
                      \<and> \<not> truthy title \<and> \<not> default_title opts
                   then ''<'' @ template href @ ''>''
                   else
                     (let title = (if default_title opts \<and> \<not> truthy title then href else title)
                      in if truthy href
                         then prefix @ ''['' @ chompedText @ ''](''
                              @ template href @ titlePart title @ '')'' @ suffix
                         else text))))"

definition convert_b :: "options \<Rightarrow> frame list \<Rightarrow> node \<Rightarrow> string \<Rightarrow> bool \<Rightarrow> string" where
  "convert_b opts ctx el text convertAsInline =
     abstractInlineConversion (repeat (strong_em_symbol opts) 2) ctx text"

definition convert_blockquote :: "options \<Rightarrow> frame list \<Rightarrow> node \<Rightarrow> string \<Rightarrow> bool \<Rightarrow> string" where
  "convert_blockquote opts ctx el text convertAsInline =
     (let text = trim text
      in if convertAsInline then '' '' @ text @ '' ''
         else if text = [] then ''\<newline>''
         else ''\<newline>''
              @ replace_lines (\<lambda>p1. if p1 \<noteq> [] then ''> '' @ p1 else ''>'') text
              @ ''\<newline>\<newline>'')"

definition convert_br :: "options \<Rightarrow> frame list \<Rightarrow> node \<Rightarrow> string \<Rightarrow> bool \<Rightarrow> string" where
  "convert_br opts ctx el text convertAsInline =
     (if convertAsInline then []
      else if toLowerCase (newline_style opts) = ''backslash'' then [CHR 0x5C, CHR 0x0A]
      else ''  \<newline>'')"

definition convert_code :: "options \<Rightarrow> frame list \<Rightarrow> node \<Rightarrow> string \<Rightarrow> bool \<Rightarrow> string" where
  "convert_code opts ctx el text convertAsInline =
     (if (case parentTag ctx of Some t \<Rightarrow> t \<noteq> [] \<and> toLowerCase t = ''pre'' | None \<Rightarrow> False)
      then text
      else abstractInlineConversion ''`'' ctx text)"

definition convert_del :: "options \<Rightarrow> frame list \<Rightarrow> node \<Rightarrow> string \<Rightarrow> bool \<Rightarrow> string" where
  "convert_del opts ctx el text convertAsInline = abstractInlineConversion ''~~'' ctx text"

definition convert_div :: "options \<Rightarrow> frame list \<Rightarrow> node \<Rightarrow> string \<Rightarrow> bool \<Rightarrow> string" where
  "convert_div opts ctx el text convertAsInline =
     (if convertAsInline then '' '' @ trim text @ '' ''
      else
        (let text = trim text
         in if text \<noteq> [] then ''\<newline>\<newline>'' @ text @ ''\<newline>\<newline>'' else []))"

definition convert_article :: "options \<Rightarrow> frame list \<Rightarrow> node \<Rightarrow> string \<Rightarrow> bool \<Rightarrow> string" where
  "convert_article opts ctx el text convertAsInline = convert_div opts ctx el text convertAsInline"

definition convert_section :: "options \<Rightarrow> frame list \<Rightarrow> node \<Rightarrow> string \<Rightarrow> bool \<Rightarrow> string" where
  "convert_section opts ctx el text convertAsInline = convert_div opts ctx el text convertAsInline"

definition convert_em :: "options \<Rightarrow> frame list \<Rightarrow> node \<Rightarrow> string \<Rightarrow> bool \<Rightarrow> string" where
  "convert_em opts ctx el text convertAsInline =
     abstractInlineConversion (strong_em_symbol opts) ctx text"

definition convert_kbd :: "options \<Rightarrow> frame list \<Rightarrow> node \<Rightarrow> string \<Rightarrow> bool \<Rightarrow> string" where
  "convert_kbd opts ctx el text convertAsInline = convert_code opts ctx el text convertAsInline"

definition convert_dd :: "options \<Rightarrow> frame list \<Rightarrow> node \<Rightarrow> string \<Rightarrow> bool \<Rightarrow> string" where
  "convert_dd opts ctx el text convertAsInline =
     (let text = trim text
      in if convertAsInline then '' '' @ text @ '' ''
         else if text = [] then ''\<newline>''
         else
           (let text = replace_lines (\<lambda>p1. if p1 \<noteq> [] then ''    '' @ p1 else []) text;
                text = '':'' @ drop 1 text
            in text @ ''\<newline>''))"

definition convert_dt :: "options \<Rightarrow> frame list \<Rightarrow> node \<Rightarrow> string \<Rightarrow> bool \<Rightarrow> string" where
  "convert_dt opts ctx el text convertAsInline =
     (let text = trim text;
          text = replace_allWhitespace text
      in if convertAsInline then '' '' @ text @ '' ''
         else if text = [] then ''\<newline>''
         else ''\<newline>'' @ text @ ''\<newline>'')"

definition convert_hn :: "options \<Rightarrow> nat \<Rightarrow> frame list \<Rightarrow> node \<Rightarrow> string \<Rightarrow> bool \<Rightarrow> string" where
  "convert_hn opts n ctx el text convertAsInline =
     (if convertAsInline then text
      else
        (let n = max 1 (min 6 n);
             style = toLowerCase (heading_style opts);
             text = trim text
         in if style = ''underlined'' \<and> n \<le> 2
            then (let line = (if n = 1 then ''='' else ''-'') in underline text line)
            else
              (let text = replace_allWhitespace text;
                   hashes = repeat ''#'' n
               in if style = ''atx_closed''
                  then ''\<newline>\<newline>'' @ hashes @ '' '' @ text @ '' '' @ hashes
                       @ ''\<newline>\<newline>''
                  else ''\<newline>\<newline>'' @ hashes @ '' '' @ text @ ''\<newline>\<newline>'')))"

definition convert_hr :: "options \<Rightarrow> frame list \<Rightarrow> node \<Rightarrow> string \<Rightarrow> bool \<Rightarrow> string" where
  "convert_hr opts ctx el text convertAsInline = ''\<newline>\<newline>---\<newline>\<newline>''"

definition convert_i :: "options \<Rightarrow> frame list \<Rightarrow> node \<Rightarrow> string \<Rightarrow> bool \<Rightarrow> string" where
  "convert_i opts ctx el text convertAsInline = convert_em opts ctx el text convertAsInline"

definition convert_img :: "options \<Rightarrow> frame list \<Rightarrow> node \<Rightarrow> string \<Rightarrow> bool \<Rightarrow> error + string" where
  "convert_img opts ctx el text convertAsInline =
     (let alt = orEmpty (getAttribute el ''alt'');
          src = orEmpty (getAttribute el ''src'');
          title = orEmpty (getAttribute el ''title'');
          markup = ''!['' @ alt @ '']('' @ src @ titlePart (Some title) @ '')''
      in if convertAsInline
         then (case parentNode ctx of
                 None \<Rightarrow> Inr alt
               | Some FragmentC \<Rightarrow> Inl TypeError
               | Some (ElementC t as) \<Rightarrow>
                   if toLowerCase t \<notin> set (keep_inline_images_in opts) then Inr alt
                   else Inr markup)
         else Inr markup)"

text \<open>The tag names of an element and of its ancestors, the element's first: what the
  loops \<open>while (current) { ... current = current.parentNode }\<close> starting at \<open>el\<close> visit.\<close>

definition selfAndAncestorTags :: "node \<Rightarrow> frame list \<Rightarrow> string option list" where
  "selfAndAncestorTags el ctx = tagName el # map (\<lambda>fr. containerTag (parent fr)) ctx"

definition hasTag :: "string \<Rightarrow> string option \<Rightarrow> bool" where
  "hasTag name t \<longleftrightarrow> (case t of None \<Rightarrow> False | Some x \<Rightarrow> x \<noteq> [] \<and> toLowerCase x = name)"

definition convert_list :: "options \<Rightarrow> frame list \<Rightarrow> node \<Rightarrow> string \<Rightarrow> bool \<Rightarrow> string" where
  "convert_list opts ctx el text convertAsInline =
     (let nextSibling = nextBlockContentSibling ctx;
          beforeParagraph =
            (case nextSibling of
               None \<Rightarrow> False
             | Some n \<Rightarrow>
                 (case tagName n of
                    None \<Rightarrow> False
                  | Some t \<Rightarrow> t \<noteq> [] \<and> toLowerCase t \<notin> set [''ul'', ''ol'']));
          nested = (\<exists>t \<in> set (selfAndAncestorTags el ctx). hasTag ''li'' t)
      in if nested then ''\<newline>'' @ replace_trailing_newlines text
         else ''\<newline>\<newline>'' @ text @ (if beforeParagraph then ''\<newline>'' else []))"

definition convert_ul :: "options \<Rightarrow> frame list \<Rightarrow> node \<Rightarrow> string \<Rightarrow> bool \<Rightarrow> string" where
  "convert_ul opts ctx el text convertAsInline = convert_list opts ctx el text convertAsInline"

definition convert_ol :: "options \<Rightarrow> frame list \<Rightarrow> node \<Rightarrow> string \<Rightarrow> bool \<Rightarrow> string" where
  "convert_ol opts ctx el text convertAsInline = convert_list opts ctx el text convertAsInline"

text \<open>\<open>Number.isNaN\<close> is true of the number \<open>NaN\<close> alone. The source applies it to the
  string an attribute holds, and of a string it is false.\<close>

definition Number_isNaN :: "string \<Rightarrow> bool" where
  "Number_isNaN v \<longleftrightarrow> False"

text \<open>\<open>cs && !Number.isNaN(cs) ? parseInt(cs, 10) : 1\<close>, for an attribute value or
  \<open>null\<close>.\<close>

definition numericAttribute :: "string option \<Rightarrow> jsnum" where
  "numericAttribute v =
     (case v of
        None \<Rightarrow> Num 1
      | Some cs \<Rightarrow> if cs \<noteq> [] \<and> \<not> Number_isNaN cs then parseInt cs else Num 1)"

text \<open>The remainder \<open>a % b\<close> of integers has the sign of \<open>a\<close> and is \<open>NaN\<close> (\<open>None\<close>) for
  \<open>b = 0\<close>, and \<open>bullets[i]\<close> is \<open>undefined\<close> unless \<open>i\<close> is an index of the string;
  \<open>undefined\<close> prints as such when a string is appended.\<close>

definition remainder :: "int \<Rightarrow> int \<Rightarrow> int option" where
  "remainder a b = (if b = 0 then None else Some (sgn a * (\<bar>a\<bar> mod \<bar>b\<bar>)))"

definition charAtIndex :: "string \<Rightarrow> int option \<Rightarrow> string option" where
  "charAtIndex s i =
     (case i of
        None \<Rightarrow> None
      | Some k \<Rightarrow> if 0 \<le> k \<and> k < int (length s) then Some [s ! nat k] else None)"

definition undefinedOr :: "string option \<Rightarrow> string" where
  "undefinedOr v = (case v of None \<Rightarrow> ''undefined'' | Some x \<Rightarrow> x)"

definition isLi :: "node \<Rightarrow> bool" where
  "isLi child \<longleftrightarrow> hasTag ''li'' (tagName child)"

text \<open>\<open>Array.from(parent.children).filter(P).indexOf(el)\<close>: nodes are compared by identity,
  and \<open>el\<close> is the child of its parent at its own position.\<close>

definition indexAmong :: "(node \<Rightarrow> bool) \<Rightarrow> frame list \<Rightarrow> node \<Rightarrow> int" where
  "indexAmong P ctx el =
     (case ctx of
        [] \<Rightarrow> - 1
      | fr # up \<Rightarrow>
          if isElement el \<and> P el then int (length (filter P (filter isElement (before fr))))
          else - 1)"

definition parentAttribute :: "frame list \<Rightarrow> string \<Rightarrow> string option" where
  "parentAttribute ctx name =
     (case parentNode ctx of Some (ElementC t as) \<Rightarrow> map_of as name | _ \<Rightarrow> None)"

definition convert_li :: "options \<Rightarrow> frame list \<Rightarrow> node \<Rightarrow> string \<Rightarrow> bool \<Rightarrow> error + string" where
  "convert_li opts ctx el text convertAsInline =
     (let text = trim text
      in if text = [] then Inr ''\<newline>''
         else
           (case
              (if hasTag ''ol'' (parentTag ctx)
               then
                 (let startAttr = parentAttribute ctx ''start'';
                      start = numericAttribute startAttr;
                      index = indexAmong isLi ctx el
                  in case numberToString (num_add start (Num index)) of
                       Inl e \<Rightarrow> Inl e
                     | Inr number \<Rightarrow> Inr (number @ ''.''))
               else
                 (let depth =
                        - 1 + int (length (filter (hasTag ''ul'')
                                             (selfAndAncestorTags el ctx)));
                      bullets = bullets opts
                  in Inr (undefinedOr
                            (charAtIndex bullets (remainder depth (int (length bullets)))))))
            of
              Inl e \<Rightarrow> Inl e
            | Inr bullet \<Rightarrow>
                (let bullet = bullet @ '' '';
                     bulletWidth = length bullet;
                     bulletIndent = repeat '' '' bulletWidth;
                     text =
                       replace_lines (\<lambda>p1. if p1 \<noteq> [] then bulletIndent @ p1 else []) text;
                     text = bullet @ drop bulletWidth text
                 in Inr (text @ ''\<newline>''))))"

definition convert_p :: "options \<Rightarrow> frame list \<Rightarrow> node \<Rightarrow> string \<Rightarrow> bool \<Rightarrow> string" where
  "convert_p opts ctx el text convertAsInline =
     (if convertAsInline then '' '' @ trim text @ '' ''
      else
        (let text = trim text;
             text =
               (if wrap opts
                then (case wrap_width opts of
                        None \<Rightarrow> text
                      | Some width \<Rightarrow>
                          (let lines = split (CHR 0x0A) text;
                               newLines = map (\<lambda>line. wordWrap (trimStart line) width) lines
                           in join ''\<newline>'' newLines))
                else text)
         in if text \<noteq> [] then ''\<newline>\<newline>'' @ text @ ''\<newline>\<newline>'' else []))"

definition convert_pre :: "options \<Rightarrow> frame list \<Rightarrow> node \<Rightarrow> string \<Rightarrow> bool \<Rightarrow> string" where
  "convert_pre opts ctx el text convertAsInline =
     (if text = [] then []
      else
        (let codeLang = code_language opts;
             codeLang =
               (case code_language_callback opts of
                  None \<Rightarrow> codeLang
                | Some callback \<Rightarrow>
                    (if callback ctx el \<noteq> [] then callback ctx el else codeLang))
         in ''\<newline>\<newline>```'' @ codeLang @ ''\<newline>'' @ text
            @ ''\<newline>```\<newline>\<newline>''))"

definition convert_script :: "options \<Rightarrow> frame list \<Rightarrow> node \<Rightarrow> string \<Rightarrow> bool \<Rightarrow> string" where
  "convert_script opts ctx el text convertAsInline = []"

definition convert_style :: "options \<Rightarrow> frame list \<Rightarrow> node \<Rightarrow> string \<Rightarrow> bool \<Rightarrow> string" where
  "convert_style opts ctx el text convertAsInline = []"

definition convert_s :: "options \<Rightarrow> frame list \<Rightarrow> node \<Rightarrow> string \<Rightarrow> bool \<Rightarrow> string" where
  "convert_s opts ctx el text convertAsInline = convert_del opts ctx el text convertAsInline"

definition convert_strong :: "options \<Rightarrow> frame list \<Rightarrow> node \<Rightarrow> string \<Rightarrow> bool \<Rightarrow> string" where
  "convert_strong opts ctx el text convertAsInline = convert_b opts ctx el text convertAsInline"

definition convert_samp :: "options \<Rightarrow> frame list \<Rightarrow> node \<Rightarrow> string \<Rightarrow> bool \<Rightarrow> string" where
  "convert_samp opts ctx el text convertAsInline = convert_code opts ctx el text convertAsInline"

definition convert_sub :: "options \<Rightarrow> frame list \<Rightarrow> node \<Rightarrow> string \<Rightarrow> bool \<Rightarrow> string" where
  "convert_sub opts ctx el text convertAsInline =
     abstractInlineConversion (sub_symbol opts) ctx text"

definition convert_sup :: "options \<Rightarrow> frame list \<Rightarrow> node \<Rightarrow> string \<Rightarrow> bool \<Rightarrow> string" where
  "convert_sup opts ctx el text convertAsInline =
     abstractInlineConversion (sup_symbol opts) ctx text"

definition convert_table :: "options \<Rightarrow> frame list \<Rightarrow> node \<Rightarrow> string \<Rightarrow> bool \<Rightarrow> string" where
  "convert_table opts ctx el text convertAsInline =
     ''\<newline>\<newline>'' @ trim text @ ''\<newline>\<newline>''"

definition convert_caption :: "options \<Rightarrow> frame list \<Rightarrow> node \<Rightarrow> string \<Rightarrow> bool \<Rightarrow> string" where
  "convert_caption opts ctx el text convertAsInline = trim text @ ''\<newline>\<newline>''"

definition convert_figcaption :: "options \<Rightarrow> frame list \<Rightarrow> node \<Rightarrow> string \<Rightarrow> bool \<Rightarrow> string" where
  "convert_figcaption opts ctx el text convertAsInline =
     ''\<newline>\<newline>'' @ trim text @ ''\<newline>\<newline>''"

definition convert_td :: "options \<Rightarrow> frame list \<Rightarrow> node \<Rightarrow> string \<Rightarrow> bool \<Rightarrow> error + string" where
  "convert_td opts ctx el text convertAsInline =
     (let cs = getAttribute el ''colspan'';
          colspan = numericAttribute cs
      in case repeat_num '' |'' colspan of
           Inl e \<Rightarrow> Inl e
         | Inr pipes \<Rightarrow> Inr ('' '' @ newlines_to_spaces (trim text) @ pipes))"

definition convert_th :: "options \<Rightarrow> frame list \<Rightarrow> node \<Rightarrow> string \<Rightarrow> bool \<Rightarrow> error + string" where
  "convert_th opts ctx el text convertAsInline =
     (let cs = getAttribute el ''colspan'';
          colspan = numericAttribute cs
      in case repeat_num '' |'' colspan of
           Inl e \<Rightarrow> Inl e
         | Inr pipes \<Rightarrow> Inr ('' '' @ newlines_to_spaces (trim text) @ pipes))"

text \<open>\<open>root.querySelector(tag)\<close>, as the source uses it: is there an element with this tag
  name below the root. The tag names of the elements of a subtree come first.\<close>

fun subtreeTags :: "node \<Rightarrow> string list" where
  "subtreeTags (Element t as cs) = toLowerCase t # concat (map subtreeTags cs)"
| "subtreeTags (Fragment cs) = concat (map subtreeTags cs)"
| "subtreeTags n = []"

definition querySelector :: "node \<Rightarrow> string \<Rightarrow> bool" where
  "querySelector root tag \<longleftrightarrow> tag \<in> set (concat (map subtreeTags (childNodes root)))"

definition convert_tr :: "options \<Rightarrow> frame list \<Rightarrow> node \<Rightarrow> string \<Rightarrow> bool \<Rightarrow> error + string" where
  "convert_tr opts ctx el text convertAsInline =
     (let cells =
            filter (\<lambda>child. let t = lowerTagName child in t = ''td'' \<or> t = ''th'') (children el);
          isFirstRow = (previousElementSibling ctx = None);
          isHeadRow =
            ((\<forall>cell \<in> set cells. hasTag ''th'' (tagName cell))
             \<or> (case ctx of
                   [] \<Rightarrow> False
                 | fr # up \<Rightarrow>
                     hasTag ''thead'' (containerTag (parent fr))
                     \<and> length (children (rebuild fr el)) = 1));
          isHeadRowMissing =
            (if \<not> isFirstRow then Inr False
             else
               (case ctx of
                  [] \<Rightarrow> Inr False
                | fr # up \<Rightarrow>
                    (case parent fr of
                       FragmentC \<Rightarrow> Inl TypeError
                     | ElementC t as \<Rightarrow>
                         if toLowerCase t \<noteq> ''tbody'' then Inr True
                         else
                           (case up of
                              [] \<Rightarrow> Inl TypeError
                            | fr2 # up2 \<Rightarrow>
                                Inr (\<not> querySelector (rebuild fr2 (rebuild fr el)) ''thead'')))))
      in case isHeadRowMissing of
           Inl e \<Rightarrow> Inl e
         | Inr isHeadRowMissing \<Rightarrow>
             if (isHeadRow \<or> (isHeadRowMissing \<and> table_infer_header opts)) \<and> isFirstRow
             then
               (let fullColspan =
                      foldl (\<lambda>sum cell. num_add sum (numericAttribute (getAttribute cell ''colspan'')))
                        (Num 0) cells
                in case Array_fill_join fullColspan ''---'' '' | '' of
                     Inl e \<Rightarrow> Inl e
                   | Inr segments \<Rightarrow>
                       (let underline = ''| '' @ segments @ '' |\<newline>''
                        in Inr (''|'' @ text @ ''\<newline>'' @ underline)))
             else
               (case (if isHeadRowMissing \<and> \<not> table_infer_header opts then Inr True
                      else if \<not> isFirstRow then Inr False
                      else
                        (case ctx of
                           [] \<Rightarrow> Inl TypeError
                         | fr # up \<Rightarrow>
                             (case parent fr of
                                FragmentC \<Rightarrow> Inl TypeError
                              | ElementC t as \<Rightarrow>
                                  Inr (toLowerCase t = ''table''
                                       \<or> (toLowerCase t = ''tbody''
                                           \<and> previousElementSibling up = None))))) of
                  Inl e \<Rightarrow> Inl e
                | Inr emptyHeader \<Rightarrow>
                    if emptyHeader
                    then
                      (let overline =
                             ''| '' @ join '' | '' (replicate (length cells) [])
                             @ '' |\<newline>''
                             @ ''| '' @ join '' | '' (replicate (length cells) ''___'')
                             @ '' |\<newline>''
                       in Inr (overline @ ''|'' @ text @ ''\<newline>''))
                    else Inr (''|'' @ text @ ''\<newline>'')))"

section \<open>The tree walk\<close>

text \<open>The methods of the converter that \<open>this["convert_" + name]\<close> can find.\<close>

definition total :: "(options \<Rightarrow> frame list \<Rightarrow> node \<Rightarrow> string \<Rightarrow> bool \<Rightarrow> string)
    \<Rightarrow> options \<Rightarrow> frame list \<Rightarrow> node \<Rightarrow> string \<Rightarrow> bool \<Rightarrow> error + string" where
  "total rule opts ctx el text convertAsInline = Inr (rule opts ctx el text convertAsInline)"

definition methodNamed ::
    "string \<Rightarrow> (options \<Rightarrow> frame list \<Rightarrow> node \<Rightarrow> string \<Rightarrow> bool \<Rightarrow> error + string) option" where
  "methodNamed funcName =
     map_of
       [(''convert_a'', total convert_a), (''convert_b'', total convert_b),
        (''convert_blockquote'', total convert_blockquote), (''convert_br'', total convert_br),
        (''convert_code'', total convert_code), (''convert_del'', total convert_del),
        (''convert_div'', total convert_div), (''convert_article'', total convert_article),
        (''convert_section'', total convert_section), (''convert_em'', total convert_em),
        (''convert_kbd'', total convert_kbd), (''convert_dd'', total convert_dd),
        (''convert_dt'', total convert_dt), (''convert_hr'', total convert_hr),
        (''convert_i'', total convert_i), (''convert_img'', convert_img),
        (''convert_list'', total convert_list), (''convert_ul'', total convert_ul),
        (''convert_ol'', total convert_ol), (''convert_li'', convert_li),
        (''convert_p'', total convert_p), (''convert_pre'', total convert_pre),
        (''convert_script'', total convert_script), (''convert_style'', total convert_style),
        (''convert_s'', total convert_s), (''convert_strong'', total convert_strong),
        (''convert_samp'', total convert_samp), (''convert_sub'', total convert_sub),
        (''convert_sup'', total convert_sup), (''convert_table'', total convert_table),
        (''convert_caption'', total convert_caption),
        (''convert_figcaption'', total convert_figcaption), (''convert_td'', convert_td),
        (''convert_th'', convert_th), (''convert_tr'', convert_tr)]
       funcName"

text \<open>\<open>canIgnore\<close>, on a child with the siblings before it (the nearest first) and after
  it; \<open>removeInside\<close> is the variable of \<open>processTag\<close> it closes over.\<close>

definition canIgnore :: "bool \<Rightarrow> node list \<Rightarrow> node \<Rightarrow> node list \<Rightarrow> bool" where
  "canIgnore removeInside bef child aft =
     (case child of
        Element t as cs \<Rightarrow> False
      | Comment v \<Rightarrow> True
      | DocumentType \<Rightarrow> True
      | Text v \<Rightarrow>
          if trim v \<noteq> [] then False
          else if removeInside \<and> (bef = [] \<or> aft = []) then True
          else if shouldRemoveWhitespaceOutside (case bef of [] \<Rightarrow> None | p # ps \<Rightarrow> Some p)
                  \<or> shouldRemoveWhitespaceOutside (case aft of [] \<Rightarrow> None | n # ns \<Rightarrow> Some n)
          then True
          else False
      | Fragment cs \<Rightarrow> False)"

text \<open>Every child of a node with the children before it, the nearest first, and after it.\<close>

fun withSiblings :: "node list \<Rightarrow> node list \<Rightarrow> (node list \<times> node \<times> node list) list" where
  "withSiblings bef [] = []"
| "withSiblings bef (c # aft) = (bef, c, aft) # withSiblings (c # bef) aft"

text \<open>The merge of the loop in \<open>processTag\<close>: the new value of \<open>text\<close> from its old value
  and the converted text of an element child.\<close>

definition mergeText :: "string \<Rightarrow> string \<Rightarrow> string" where
  "mergeText text nextText =
     (let textStrip = replace_trailing_newlines text;
          newlinesLeft = length text - length textStrip;
          nextTextStrip = replace_leading_newlines nextText;
          newlinesRight = length nextText - length nextTextStrip;
          newlines = repeat ''\<newline>'' (max newlinesLeft newlinesRight)
      in textStrip @ newlines @ nextTextStrip)"

definition funcNameOf :: "string \<Rightarrow> node \<Rightarrow> string" where
  "funcNameOf tag node =
     ''convert_'' @ map (\<lambda>c. if c \<in> set ''[]:-'' then CHR ''_'' else c)
                      (if tag \<noteq> [] then tag else nodeName node)"

text \<open>The recursion of \<open>processTag\<close> goes through the children of the node, so it ends:
  the three facts below bound the size of the children that pass the filter.\<close>

lemma withSiblings_size:
  "sum_list (map (\<lambda>(b, c, a). Suc (size c)) (withSiblings bs cs)) = size_list size cs"
  by (induction cs arbitrary: bs) auto

lemma filter_sum_le:
  fixes f :: "'a \<Rightarrow> nat"
  shows "sum_list (map f (filter P xs)) \<le> sum_list (map f xs)"
  by (induction xs) auto

lemma childNodes_size: "size_list size (childNodes n) \<le> size n"
  by (cases n) auto

text \<open>
  \<open>processTag\<close>, and the loop over the children that passed the filter as a function of its
  own: \<open>processChildren\<close> takes the children still to visit and the text so far. The context
  of a child is the frame of the node put before the node's context.
\<close>

function processTag :: "options \<Rightarrow> frame list \<Rightarrow> node \<Rightarrow> bool \<Rightarrow> error + string"
  and processChildren :: "options \<Rightarrow> frame list \<Rightarrow> container \<Rightarrow> bool
      \<Rightarrow> (node list \<times> node \<times> node list) list \<Rightarrow> string \<Rightarrow> error + string" where
  "processTag opts ctx node convertAsInline =
     (let tag = lowerTagName node;
          convertChildrenAsInline =
            (convertAsInline \<or> htmlHeadingRe tag \<or> (tag = ''td'' \<or> tag = ''th''));
          removeInside = shouldRemoveWhitespaceInside (tagName node);
          children =
            filter (\<lambda>(bef, child, aft). \<not> canIgnore removeInside bef child aft)
              (withSiblings [] (childNodes node))
      in case processChildren opts ctx (containerOf node) convertChildrenAsInline children [] of
           Inl e \<Rightarrow> Inl e
         | Inr text \<Rightarrow>
             (let funcName = funcNameOf tag node
              in case (if shouldConvertTag opts tag then methodNamed funcName else None) of
                   Some rule \<Rightarrow> rule opts ctx node text convertAsInline
                 | None \<Rightarrow>
                     if htmlHeadingRe tag \<and> shouldConvertTag opts tag
                     then Inr (convert_hn opts (nat (digitValue (tag ! 1))) ctx node text
                                 convertAsInline)
                     else Inr text))"
| "processChildren opts ctx par convertChildrenAsInline [] text = Inr text"
| "processChildren opts ctx par convertChildrenAsInline ((bef, child, aft) # rest) text =
     (let childCtx = \<lparr> parent = par, before = bef, after = aft \<rparr> # ctx
      in case child of
           Text nodeValue \<Rightarrow>
             processChildren opts ctx par convertChildrenAsInline rest
               (text @ processText opts childCtx nodeValue)
         | _ \<Rightarrow>
             (case processTag opts childCtx child convertChildrenAsInline of
                Inl e \<Rightarrow> Inl e
              | Inr nextText \<Rightarrow>
                  processChildren opts ctx par convertChildrenAsInline rest
                    (mergeText text nextText)))"
  by pat_completeness auto
termination
proof (relation "measure (\<lambda>x. case x of
           Inl (opts, ctx, node, inl) \<Rightarrow> 2 * size node + 1
         | Inr (opts, ctx, par, inl, cs, text) \<Rightarrow>
             2 * sum_list (map (\<lambda>(b, c, a). Suc (size c)) cs))", goal_cases)
  case (2 opts ctx node convertAsInline tag inl removeInside children)
  have "sum_list (map (\<lambda>(b, c, a). Suc (size c)) children)
          \<le> sum_list (map (\<lambda>(b, c, a). Suc (size c)) (withSiblings [] (childNodes node)))"
    unfolding 2 by (rule filter_sum_le)
  also have "\<dots> \<le> size node"
    by (simp add: withSiblings_size childNodes_size)
  finally show ?case by simp
qed simp_all

declare processTag.simps [simp del]

text \<open>\<open>convert\<close>, the method (the option of that name is the field of the record), on a
  node with its context, and the exported \<open>markdownify\<close>.\<close>

definition convert_method :: "options \<Rightarrow> frame list \<Rightarrow> node \<Rightarrow> error + string" where
  "convert_method this ctx domNode = processTag this ctx domNode False"

definition markdownify :: "frame list \<Rightarrow> node \<Rightarrow> given_options \<Rightarrow> error + string" where
  "markdownify ctx domNode options =
     (case MarkdownConverter options of
        Inl e \<Rightarrow> Inl e
      | Inr this \<Rightarrow> convert_method this ctx domNode)"

text \<open>
  The calls of \<open>processTag\<close> that one call makes, directly and through its recursion, in
  the order they are made: the context, the node and the inline flag of each. The loop
  stops at a child whose conversion raises.
\<close>

function callsOfTag :: "options \<Rightarrow> frame list \<Rightarrow> node \<Rightarrow> bool \<Rightarrow> (frame list \<times> node \<times> bool) list"
  and callsOfChildren :: "options \<Rightarrow> frame list \<Rightarrow> container \<Rightarrow> bool
      \<Rightarrow> (node list \<times> node \<times> node list) list \<Rightarrow> (frame list \<times> node \<times> bool) list" where
  "callsOfTag opts ctx node convertAsInline =
     (let tag = lowerTagName node;
          convertChildrenAsInline =
            (convertAsInline \<or> htmlHeadingRe tag \<or> (tag = ''td'' \<or> tag = ''th''));
          removeInside = shouldRemoveWhitespaceInside (tagName node);
          children =
            filter (\<lambda>(bef, child, aft). \<not> canIgnore removeInside bef child aft)
              (withSiblings [] (childNodes node))
      in callsOfChildren opts ctx (containerOf node) convertChildrenAsInline children)"
| "callsOfChildren opts ctx par convertChildrenAsInline [] = []"
| "callsOfChildren opts ctx par convertChildrenAsInline ((bef, child, aft) # rest) =
     (let childCtx = \<lparr> parent = par, before = bef, after = aft \<rparr> # ctx
      in case child of
           Text nodeValue \<Rightarrow> callsOfChildren opts ctx par convertChildrenAsInline rest
         | _ \<Rightarrow>
             (childCtx, child, convertChildrenAsInline)
             # callsOfTag opts childCtx child convertChildrenAsInline
             @ (case processTag opts childCtx child convertChildrenAsInline of
                  Inl e \<Rightarrow> []
                | Inr nextText \<Rightarrow> callsOfChildren opts ctx par convertChildrenAsInline rest))"
  by pat_completeness auto
termination
proof (relation "measure (\<lambda>x. case x of
           Inl (opts, ctx, node, inl) \<Rightarrow> 2 * size node + 1
         | Inr (opts, ctx, par, inl, cs) \<Rightarrow>
             2 * sum_list (map (\<lambda>(b, c, a). Suc (size c)) cs))", goal_cases)
  case (2 opts ctx node convertAsInline tag inl removeInside children)
  have "sum_list (map (\<lambda>(b, c, a). Suc (size c)) children)
          \<le> sum_list (map (\<lambda>(b, c, a). Suc (size c)) (withSiblings [] (childNodes node)))"
    unfolding 2 by (rule filter_sum_le)
  also have "\<dots> \<le> size node"
    by (simp add: withSiblings_size childNodes_size)
  finally show ?case by simp
qed simp_all

declare callsOfTag.simps [simp del]

section \<open>The words of the specification\<close>

text \<open>The number of line feeds a text ends with, and the number it starts with.\<close>

definition trailingNewlines :: "string \<Rightarrow> nat" where
  "trailingNewlines s = length (takeWhile (\<lambda>c. c = CHR 0x0A) (rev s))"

definition leadingNewlines :: "string \<Rightarrow> nat" where
  "leadingNewlines s = length (takeWhile (\<lambda>c. c = CHR 0x0A) s)"

text \<open>Both lists are set: the caller gave a list, not \<open>null\<close>, for \<open>strip\<close> and for
  \<open>convert\<close>. And the error of the constructor.\<close>

definition bothGiven :: "given_options \<Rightarrow> bool" where
  "bothGiven given \<longleftrightarrow>
     (case given_strip given of Some (Some ts) \<Rightarrow> True | _ \<Rightarrow> False)
     \<and> (case given_convert given of Some (Some tc) \<Rightarrow> True | _ \<Rightarrow> False)"

definition configurationError :: error where
  "configurationError =
     Error ''You may specify either tags to strip or tags to convert, but not both.''"

text \<open>The colspan of a cell: 1 without the attribute or with an empty one, else the integer
  the attribute starts with, if there is one of at most \<open>2 ^ 53\<close> in magnitude. And the cells
  of a row.\<close>

definition colspan :: "node \<Rightarrow> int option" where
  "colspan cell =
     (case getAttribute cell ''colspan'' of
        None \<Rightarrow> Some 1
      | Some cs \<Rightarrow>
          if cs = [] then Some 1
          else (case parseInt cs of Num k \<Rightarrow> Some k | _ \<Rightarrow> None))"

definition rowCells :: "node \<Rightarrow> node list" where
  "rowCells el =
     filter (\<lambda>child. lowerTagName child = ''td'' \<or> lowerTagName child = ''th'') (children el)"

text \<open>A list item: the text behind its bullet, the lines after the first indented by the
  width of the bullet and a space. And the depth of an element in unordered lists, 0 for
  an element with one \<open>ul\<close> above it.\<close>

definition bulleted :: "string \<Rightarrow> string \<Rightarrow> string" where
  "bulleted bullet text =
     (let b = bullet @ '' ''
      in b @ drop (length b)
               (replace_lines (\<lambda>p1. if p1 \<noteq> [] then repeat '' '' (length b) @ p1 else []) text)
         @ ''\<newline>'')"

definition ulDepth :: "node \<Rightarrow> frame list \<Rightarrow> int" where
  "ulDepth el ctx = int (length (filter (hasTag ''ul'') (selfAndAncestorTags el ctx))) - 1"

section \<open>Newline-collision merging\<close>

lemma isNewline_eq: "isNewline = (\<lambda>c. c = CHR 0x0A)"
  by (auto simp: isNewline_def)

lemma takeWhile_eq_replicate: "takeWhile (\<lambda>c. c = x) s = replicate (length (takeWhile (\<lambda>c. c = x) s)) x"
  by (induction s) auto

lemma trailing_split: "s = replace_trailing_newlines s @ replicate (trailingNewlines s) (CHR 0x0A)"
proof -
  let ?P = "\<lambda>c. c = CHR 0x0A"
  have "rev s = takeWhile ?P (rev s) @ dropWhile ?P (rev s)" by simp
  then have "s = rev (dropWhile ?P (rev s)) @ rev (takeWhile ?P (rev s))"
    by (metis rev_append rev_rev_ident)
  moreover have "rev (takeWhile ?P (rev s)) = replicate (trailingNewlines s) (CHR 0x0A)"
    unfolding trailingNewlines_def by (subst takeWhile_eq_replicate) simp
  ultimately show ?thesis by (simp add: replace_trailing_newlines_def isNewline_eq)
qed

lemma leading_split: "s = replicate (leadingNewlines s) (CHR 0x0A) @ replace_leading_newlines s"
proof -
  let ?P = "\<lambda>c. c = CHR 0x0A"
  have "s = takeWhile ?P s @ dropWhile ?P s" by simp
  moreover have "takeWhile ?P s = replicate (leadingNewlines s) (CHR 0x0A)"
    unfolding leadingNewlines_def by (rule takeWhile_eq_replicate)
  ultimately show ?thesis by (simp add: replace_leading_newlines_def isNewline_eq)
qed

lemma trailing_stripped_end:
  "replace_trailing_newlines s = [] \<or> last (replace_trailing_newlines s) \<noteq> CHR 0x0A"
proof (cases "dropWhile isNewline (rev s)")
  case Nil
  then show ?thesis by (simp add: replace_trailing_newlines_def)
next
  case (Cons a as)
  then have "\<not> isNewline a" by (metis hd_dropWhile list.sel(1) list.distinct(1))
  with Cons show ?thesis by (simp add: replace_trailing_newlines_def isNewline_def)
qed

lemma leading_stripped_start:
  "replace_leading_newlines s = [] \<or> hd (replace_leading_newlines s) \<noteq> CHR 0x0A"
  unfolding replace_leading_newlines_def
  by (metis hd_dropWhile isNewline_def)

lemma length_trailing: "length s - length (replace_trailing_newlines s) = trailingNewlines s"
proof -
  have "length s = length (replace_trailing_newlines s) + trailingNewlines s"
    by (metis trailing_split length_append length_replicate)
  then show ?thesis by simp
qed

lemma length_leading: "length s - length (replace_leading_newlines s) = leadingNewlines s"
proof -
  have "length s = leadingNewlines s + length (replace_leading_newlines s)"
    by (metis leading_split length_append length_replicate)
  then show ?thesis by simp
qed

lemma replace_trailing_newlines_take:
  "replace_trailing_newlines s = take (length s - trailingNewlines s) s"
proof -
  have len: "length s - trailingNewlines s = length (replace_trailing_newlines s)"
    using length_trailing [of s]
    by (metis add_diff_cancel_right' length_append length_replicate trailing_split)
  have "take (length (replace_trailing_newlines s))
          (replace_trailing_newlines s @ replicate (trailingNewlines s) (CHR 0x0A))
        = replace_trailing_newlines s"
    by simp
  then show ?thesis
    unfolding len using trailing_split [of s] by simp
qed

lemma replace_leading_newlines_drop:
  "replace_leading_newlines s = drop (leadingNewlines s) s"
proof -
  have "drop (leadingNewlines s)
          (replicate (leadingNewlines s) (CHR 0x0A) @ replace_leading_newlines s)
        = replace_leading_newlines s"
    by simp
  then show ?thesis
    using leading_split [of s] by simp
qed

lemma repeat_newline: "repeat ''\<newline>'' n = replicate n (CHR 0x0A)"
  by (induction n) (auto simp: repeat_def)

lemma mergeText_eq:
  "mergeText text nextText =
     replace_trailing_newlines text
     @ replicate (max (trailingNewlines text) (leadingNewlines nextText)) (CHR 0x0A)
     @ replace_leading_newlines nextText"
  by (simp add: mergeText_def Let_def length_trailing length_leading repeat_newline)

lemma processChildren_append:
  "processChildren opts ctx par inl (ps @ qs) acc0 =
     (case processChildren opts ctx par inl ps acc0 of
        Inl e \<Rightarrow> Inl e
      | Inr acc \<Rightarrow> processChildren opts ctx par inl qs acc)"
proof (induction ps arbitrary: acc0)
  case Nil
  then show ?case by simp
next
  case (Cons z ps)
  obtain bef child aft where z: "z = (bef, child, aft)" by (cases z) auto
  show ?case
    by (cases child) (simp_all add: z Cons.IH Let_def split: sum.splits)
qed


text \<open>
  C1. In \<open>processTag\<close>, when the converted text of an element child is merged into the
  accumulated text, the line feeds the accumulated text ends with and those the new piece
  starts with are counted, and both runs are replaced by one run of as many line feeds as
  the larger count, between the two stripped pieces. This holds wherever the child stands
  in the list of children: \<open>visited\<close> are the children before it, \<open>rest\<close> those after it.
\<close>

theorem processTag_merges_newlines:
  assumes "processChildren opts ctx par inl visited acc0 = Inr text"
    and "\<forall>v. child \<noteq> Text v"
    and "processTag opts (\<lparr> parent = par, before = bef, after = aft \<rparr> # ctx) child inl
           = Inr nextText"
  shows "processChildren opts ctx par inl (visited @ (bef, child, aft) # rest) acc0 =
           processChildren opts ctx par inl rest
             (take (length text - trailingNewlines text) text
              @ replicate (max (trailingNewlines text) (leadingNewlines nextText)) (CHR 0x0A)
              @ drop (leadingNewlines nextText) nextText)"
proof -
  have "processChildren opts ctx par inl (visited @ (bef, child, aft) # rest) acc0 =
          processChildren opts ctx par inl ((bef, child, aft) # rest) text"
    by (simp add: processChildren_append assms(1))
  also have "\<dots> = processChildren opts ctx par inl rest (mergeText text nextText)"
    using assms(2,3) by (cases child) (simp_all add: Let_def)
  finally show ?thesis
    by (simp add: mergeText_eq replace_trailing_newlines_take replace_leading_newlines_drop)
qed

theorem processTag_merges_newlines_witness:
  "processChildren defaults [] (ElementC ''DIV'' []) False
     [([], Text ''a'', [Element ''P'' [] [Text ''b'']]),
      ([Text ''a''], Element ''P'' [] [Text ''b''], [])] []
   = Inr ''a\<newline>\<newline>b\<newline>\<newline>''"
proof -
  have h1: "processChildren defaults [] (ElementC ''DIV'' []) False
              [([], Text ''a'', [Element ''P'' [] [Text ''b'']])] [] = Inr ''a''"
    by code_simp
  have h2: "\<forall>v. Element ''P'' [] [Text ''b''] \<noteq> Text v"
    by simp
  have h3: "processTag defaults
              (\<lparr> parent = ElementC ''DIV'' [], before = [Text ''a''], after = [] \<rparr> # [])
              (Element ''P'' [] [Text ''b'']) False = Inr ''\<newline>\<newline>b\<newline>\<newline>''"
    by code_simp
  show ?thesis
    using processTag_merges_newlines [OF h1 h2 h3, of "[]"]
    by (simp add: trailingNewlines_def leadingNewlines_def)
qed

section \<open>Construction\<close>

lemma strip_and_convert_assigned:
  "strip (Object_assign defaults given) \<noteq> None \<and> convert (Object_assign defaults given) \<noteq> None
     \<longleftrightarrow> bothGiven given"
proof -
  have s: "strip (Object_assign defaults given) = orDefault (given_strip given) None"
    by (simp add: Object_assign_def defaults_def)
  have c: "convert (Object_assign defaults given) = orDefault (given_convert given) None"
    by (simp add: Object_assign_def defaults_def)
  show ?thesis
    unfolding s c by (auto simp: orDefault_def bothGiven_def split: option.splits)
qed

text \<open>
  C5. Constructing a converter raises an error if and only if both \<open>strip\<close> and
  \<open>convert\<close> are set (not \<open>null\<close>). For every other options object construction succeeds,
  with the given options over the defaults. The error is the only one the constructor
  raises, and when it is raised no converter exists: \<open>markdownify\<close> raises it and converts
  nothing.
\<close>

theorem MarkdownConverter_raises_iff_both:
  "MarkdownConverter given =
     (if bothGiven given then Inl configurationError
      else Inr (Object_assign defaults given))
   \<and> ((\<exists>e. MarkdownConverter given = Inl e) \<longleftrightarrow> bothGiven given)
   \<and> markdownify ctx domNode given =
     (if bothGiven given then Inl configurationError
      else convert_method (Object_assign defaults given) ctx domNode)"
  using strip_and_convert_assigned [of given]
  by (auto simp: MarkdownConverter_def markdownify_def Let_def configurationError_def)

theorem MarkdownConverter_raises_iff_both_witness:
  "MarkdownConverter (no_options \<lparr> given_strip := Some (Some [''a'']),
                                    given_convert := Some (Some [''b'']) \<rparr>)
     = Inl (Error ''You may specify either tags to strip or tags to convert, but not both.'')
   \<and> MarkdownConverter (no_options \<lparr> given_strip := Some (Some [''a'']) \<rparr>)
     = Inr (defaults \<lparr> strip := Some [''a''] \<rparr>)"
  using MarkdownConverter_raises_iff_both
          [of "no_options \<lparr> given_strip := Some (Some [''a'']),
                              given_convert := Some (Some [''b'']) \<rparr>"]
        MarkdownConverter_raises_iff_both
          [of "no_options \<lparr> given_strip := Some (Some [''a'']) \<rparr>"]
  by (simp add: bothGiven_def no_options_def configurationError_def Object_assign_def
        defaults_def orDefault_def)

section \<open>Text nodes in code\<close>

lemma findAncestor_iff:
  "findAncestor ctx names \<noteq> None \<longleftrightarrow>
     (\<exists>fr \<in> set ctx. \<exists>t as. parent fr = ElementC t as \<and> toLowerCase t \<in> set names)"
  by (induction ctx) (auto split: container.splits)

text \<open>
  C8. For every text node with a \<open>pre\<close>, \<open>code\<close>, \<open>kbd\<close> or \<open>samp\<close> ancestor the
  escaper is not applied: the result of \<open>processText\<close> is the same whatever the three escape
  options are, and it is the text with its white space collapsed (outside \<open>pre\<close>) and
  stripped at block boundaries, nothing else.
\<close>

theorem processText_never_escapes_in_code:
  assumes "\<exists>fr \<in> set ctx. \<exists>t as. parent fr = ElementC t as
             \<and> toLowerCase t \<in> set [''pre'', ''code'', ''kbd'', ''samp'']"
  shows "processText opts ctx nodeValue =
           processText (opts \<lparr> escape_asterisks := ea, escape_underscores := eu,
                                escape_misc := em \<rparr>) ctx nodeValue
         \<and> processText opts ctx nodeValue =
           (let text =
                  (if findAncestor ctx [''pre''] = None
                   then (if wrap opts then replace_allWhitespace nodeValue
                         else replace_whitespace (replace_newlineWhitespace nodeValue))
                   else nodeValue);
                text =
                  (if shouldRemoveWhitespaceOutside (previousSibling ctx)
                      \<or> (parentNode ctx \<noteq> None \<and> shouldRemoveWhitespaceInside (parentTag ctx)
                          \<and> previousSibling ctx = None)
                   then dropWhile isWhiteSpace text else text);
                text =
                  (if shouldRemoveWhitespaceOutside (nextSibling ctx)
                      \<or> (parentNode ctx \<noteq> None \<and> shouldRemoveWhitespaceInside (parentTag ctx)
                          \<and> nextSibling ctx = None)
                   then rev (dropWhile isWhiteSpace (rev text)) else text)
            in text)"
proof -
  have "findAncestor ctx [''pre'', ''code'', ''kbd'', ''samp''] \<noteq> None"
    using assms by (simp only: findAncestor_iff)
  then obtain anc where "findAncestor ctx [''pre'', ''code'', ''kbd'', ''samp''] = Some anc"
    by auto
  then have esc: "(if findAncestor ctx [''pre'', ''code'', ''kbd'', ''samp''] = None
                   then escape o' t else t) = t" for o' t
    by simp
  have w: "wrap (opts \<lparr> escape_asterisks := ea, escape_underscores := eu,
                          escape_misc := em \<rparr>) = wrap opts"
    by simp
  show ?thesis
    unfolding processText_def Let_def esc w by (rule conjI; rule refl)
qed
theorem processText_never_escapes_in_code_witness:
  "processText defaults [\<lparr> parent = ElementC ''CODE'' [], before = [], after = [] \<rparr>] ''a_b * c''
     = ''a_b * c''"
proof -
  let ?ctx = "[\<lparr> parent = ElementC ''CODE'' [], before = [], after = [] \<rparr>]"
  have l: "toLowerCase ''CODE'' = ''code''" by code_simp
  have h: "\<exists>fr \<in> set ?ctx. \<exists>t as. parent fr = ElementC t as
             \<and> toLowerCase t \<in> set [''pre'', ''code'', ''kbd'', ''samp'']"
    by (simp add: l)
  have off: "processText (defaults \<lparr> escape_asterisks := False, escape_underscores := False,
                                      escape_misc := False \<rparr>) ?ctx ''a_b * c'' = ''a_b * c''"
    by code_simp
  have "processText defaults ?ctx ''a_b * c''
          = processText (defaults \<lparr> escape_asterisks := False, escape_underscores := False,
                                      escape_misc := False \<rparr>) ?ctx ''a_b * c''"
    using processText_never_escapes_in_code [OF h, of defaults "''a_b * c''" False False False]
    by (rule conjunct1)
  from this off show ?thesis by (rule trans)
qed

text \<open>Outside code the same text is escaped.\<close>

lemma processText_escapes_outside_code:
  "processText defaults [\<lparr> parent = ElementC ''SPAN'' [], before = [], after = [] \<rparr>] ''a_b * c''
     = ''a'' @ [CHR 0x5C] @ ''_b '' @ [CHR 0x5C] @ ''* c''"
  by code_simp

section \<open>Lists\<close>

lemma liAncestor_iff:
  assumes "\<not> hasTag ''li'' (tagName el)"
  shows "(\<exists>t \<in> set (selfAndAncestorTags el ctx). hasTag ''li'' t)
           \<longleftrightarrow> (\<exists>fr \<in> set ctx. hasTag ''li'' (containerTag (parent fr)))"
  using assms by (auto simp: selfAndAncestorTags_def)

text \<open>
  C6, as amended. For every \<open>ul\<close> or \<open>ol\<close> element: if it has an \<open>li\<close> ancestor, its
  output is one line feed and the aggregated child text without its trailing line feeds;
  otherwise its output is two line feeds and the aggregated child text, and one more line
  feed after it when the next block-content sibling is an element that is not a \<open>ul\<close> or
  \<open>ol\<close>.
\<close>

theorem convert_list_output:
  assumes "lowerTagName el = ''ul'' \<or> lowerTagName el = ''ol''"
  shows "convert_list opts ctx el text convertAsInline =
     (if \<exists>fr \<in> set ctx. hasTag ''li'' (containerTag (parent fr))
      then ''\<newline>'' @ take (length text - trailingNewlines text) text
      else ''\<newline>\<newline>'' @ text
           @ (case nextBlockContentSibling ctx of
                Some (Element t as cs) \<Rightarrow>
                  if t \<noteq> [] \<and> toLowerCase t \<noteq> ''ul'' \<and> toLowerCase t \<noteq> ''ol''
                  then ''\<newline>'' else []
              | _ \<Rightarrow> []))"
proof -
  have "\<not> hasTag ''li'' (tagName el)"
    using assms by (auto simp: lowerTagName_def hasTag_def split: option.splits)
  then have nested: "(\<exists>t \<in> set (selfAndAncestorTags el ctx). hasTag ''li'' t)
           \<longleftrightarrow> (\<exists>fr \<in> set ctx. hasTag ''li'' (containerTag (parent fr)))"
    by (rule liAncestor_iff)
  show ?thesis
    unfolding convert_list_def Let_def nested replace_trailing_newlines_take
    by (auto split: option.splits node.splits)
qed

theorem convert_list_output_witness:
  "convert_list defaults [\<lparr> parent = ElementC ''LI'' [], before = [], after = [] \<rparr>]
     (Element ''UL'' [] []) ''+ x\<newline>'' False = ''\<newline>+ x''"
proof -
  have h: "lowerTagName (Element ''UL'' [] []) = ''ul'' \<or> lowerTagName (Element ''UL'' [] []) = ''ol''"
    by code_simp
  have l: "toLowerCase ''LI'' = ''li''" by code_simp
  show ?thesis
    using convert_list_output [OF h, of defaults
        "[\<lparr> parent = ElementC ''LI'' [], before = [], after = [] \<rparr>]" "''+ x\<newline>''" False]
    by (simp add: hasTag_def l trailingNewlines_def)
qed

text \<open>
  C6 as first stated asks for a line feed after the text of a list that is not nested, and
  for a second one when the next block-content sibling is not a list. The rule adds none
  to a list without a following sibling, and none before a sibling that is a text node.
\<close>

theorem convert_list_counterexample:
  "convert_list defaults [] (Element ''UL'' [] [Element ''LI'' [] [Text ''a'']]) ''* a\<newline>'' False
     = ''\<newline>\<newline>* a\<newline>''
   \<and> convert_list defaults [] (Element ''UL'' [] [Element ''LI'' [] [Text ''a'']]) ''* a\<newline>'' False
     \<noteq> ''\<newline>\<newline>'' @ ''* a\<newline>'' @ ''\<newline>''
   \<and> nextBlockContentSibling
         [\<lparr> parent = ElementC ''DIV'' [], before = [], after = [Text ''x''] \<rparr>] = Some (Text ''x'')
   \<and> convert_list defaults [\<lparr> parent = ElementC ''DIV'' [], before = [], after = [Text ''x''] \<rparr>]
         (Element ''UL'' [] [Element ''LI'' [] [Text ''a'']]) ''* a\<newline>'' False
     = ''\<newline>\<newline>* a\<newline>''"
  by code_simp

text \<open>
  C7. The bullet of an \<open>li\<close> whose parent is not an \<open>ol\<close> is to be the character of
  \<open>bullets\<close> at the nesting depth modulo the length. For an \<open>li\<close> with no \<open>ul\<close> above it
  the depth is \<open>-1\<close>, the remainder is \<open>-1\<close>, the string has no such index, and the rule
  prints \<open>undefined\<close> as the bullet.
\<close>

theorem li_outside_ul_bullet_undefined:
  "processTag defaults [] (Element ''DIV'' [] [Element ''LI'' [] [Text ''x'']]) False
     = Inr ''\<newline>\<newline>undefined x\<newline>\<newline>''
   \<and> convert_li defaults [\<lparr> parent = ElementC ''DIV'' [], before = [], after = [] \<rparr>]
         (Element ''LI'' [] [Text ''x'']) ''x'' False = Inr ''undefined x\<newline>''"
  by code_simp

text \<open>The ordered list of the specification, \<open><ol start="3"><li>x</li></ol>\<close>.\<close>

lemma ol_start_example:
  "processTag defaults []
     (Element ''OL'' [(''start'', ''3'')] [Element ''LI'' [] [Text ''x'']]) False
     = Inr ''\<newline>\<newline>3. x\<newline>''"
  by code_simp

text \<open>Where the rule does give the bullet of C7: under an \<open>ol\<close> whose \<open>start\<close> is a number
  or absent, and at a depth of 0 or more with a non-empty \<open>bullets\<close>.\<close>

lemma remainder_nonneg:
  "0 \<le> a \<Longrightarrow> 0 < b \<Longrightarrow> remainder a b = Some (a mod b)"
  by (cases "a = 0") (simp_all add: remainder_def)

lemma convert_li_bullets:
  assumes "trim text \<noteq> []"
  shows "hasTag ''ol'' (parentTag ctx) \<Longrightarrow>
           numericAttribute (parentAttribute ctx ''start'') = Num start \<Longrightarrow>
           \<bar>start + indexAmong isLi ctx el\<bar> \<le> 9007199254740992 \<Longrightarrow>
           convert_li opts ctx el text convertAsInline
             = Inr (bulleted (decimal (start + indexAmong isLi ctx el) @ ''.'') (trim text))"
    and "\<not> hasTag ''ol'' (parentTag ctx) \<Longrightarrow> bullets opts \<noteq> [] \<Longrightarrow> 0 \<le> ulDepth el ctx \<Longrightarrow>
           convert_li opts ctx el text convertAsInline
             = Inr (bulleted [bullets opts ! (nat (ulDepth el ctx) mod length (bullets opts))]
                      (trim text))"
proof -
  show "convert_li opts ctx el text convertAsInline
          = Inr (bulleted (decimal (start + indexAmong isLi ctx el) @ ''.'') (trim text))"
    if "hasTag ''ol'' (parentTag ctx)"
      and "numericAttribute (parentAttribute ctx ''start'') = Num start"
      and "\<bar>start + indexAmong isLi ctx el\<bar> \<le> 9007199254740992"
    using assms that
    by (simp add: convert_li_def Let_def bulleted_def num_add_def exactInteger_def
          numberToString_def cong: if_cong)
next
  assume ul: "\<not> hasTag ''ol'' (parentTag ctx)" "bullets opts \<noteq> []" "0 \<le> ulDepth el ctx"
  let ?d = "int (length (filter (hasTag ''ul'') (selfAndAncestorTags el ctx))) - 1"
  let ?n = "length (bullets opts)"
  have d: "?d = ulDepth el ctx" by (simp add: ulDepth_def)
  have r: "remainder (ulDepth el ctx) (int ?n) = Some (ulDepth el ctx mod int ?n)"
    using ul by (intro remainder_nonneg) simp_all
  have m: "nat (ulDepth el ctx mod int ?n) = nat (ulDepth el ctx) mod ?n"
    using ul(3) by (simp add: nat_mod_distrib)
  have c: "charAtIndex (bullets opts) (Some (ulDepth el ctx mod int ?n))
             = Some [bullets opts ! (nat (ulDepth el ctx) mod ?n)]"
    using ul(2,3) by (simp add: charAtIndex_def m)
  show "convert_li opts ctx el text convertAsInline
          = Inr (bulleted [bullets opts ! (nat (ulDepth el ctx) mod ?n)] (trim text))"
    using assms ul(1)
    by (simp add: convert_li_def Let_def bulleted_def d r c undefinedOr_def cong: if_cong)
qed

section \<open>Headings\<close>

lemma trim_whitespace_only: "(\<forall>c \<in> set s. isWhiteSpace c) \<Longrightarrow> trim s = []"
proof -
  assume "\<forall>c \<in> set s. isWhiteSpace c"
  then have "dropWhile isWhiteSpace s = []" by (simp add: dropWhile_eq_Nil_conv)
  then show ?thesis by (simp only: trim_def trimStart_def trimEnd_def rev.simps dropWhile.simps)
qed

lemma replace_allWhitespace_Nil: "replace_allWhitespace [] = []"
  by (simp add: replace_allWhitespace_def)

text \<open>
  C10. For an \<open>h1\<close> or \<open>h2\<close> whose aggregated child text is empty or white space only,
  outside an inline context: with the underlined heading style the rule returns the empty
  string, no blank lines and no rule under the text; with the ATX style it still returns
  the line of hashes between blank lines.
\<close>

theorem convert_hn_blank_underlined:
  assumes "n = 1 \<or> n = 2" and "\<forall>c \<in> set text. isWhiteSpace c"
  shows "(heading_style opts = ''underlined''
            \<longrightarrow> convert_hn opts n ctx el text False = [])
         \<and> (heading_style opts = ''atx''
            \<longrightarrow> convert_hn opts n ctx el text False
                  = ''\<newline>\<newline>'' @ replicate n (CHR ''#'') @ '' '' @ ''\<newline>\<newline>'')"
proof -
  have t: "trim text = []" using assms(2) by (rule trim_whitespace_only)
  have u: "toLowerCase ''underlined'' = ''underlined''" by code_simp
  have a: "toLowerCase ''atx'' = ''atx''" by code_simp
  show ?thesis
    using assms(1)
    by (auto simp: convert_hn_def Let_def t u a underline_def trimEnd_def
          replace_allWhitespace_Nil repeat_def eval_nat_numeral)
qed

theorem convert_hn_blank_underlined_witness:
  "convert_hn defaults 1 [] (Element ''H1'' [] []) '' '' False = []"
proof -
  have h1: "(1::nat) = 1 \<or> (1::nat) = 2" by simp
  have h2: "\<forall>c \<in> set '' ''. isWhiteSpace c" by (simp add: isWhiteSpace_def)
  have h3: "heading_style defaults = ''underlined''" by (simp add: defaults_def)
  from convert_hn_blank_underlined [OF h1 h2, of defaults "[]" "Element ''H1'' [] []"] h3
  show ?thesis by blast
qed

text \<open>The same through \<open>processTag\<close>, for a heading that the options let convert.\<close>

lemma processTag_blank_heading:
  assumes "lowerTagName node = ''h1'' \<or> lowerTagName node = ''h2''"
    and "shouldConvertTag opts (lowerTagName node)"
    and "heading_style opts = ''underlined''"
    and "processChildren opts ctx (containerOf node) True
           (filter (\<lambda>(bef, child, aft).
                      \<not> canIgnore (shouldRemoveWhitespaceInside (tagName node)) bef child aft)
              (withSiblings [] (childNodes node))) [] = Inr text"
    and "\<forall>c \<in> set text. isWhiteSpace c"
  shows "processTag opts ctx node False = Inr []"
proof -
  have t: "trim text = []" using assms(5) by (rule trim_whitespace_only)
  have u: "toLowerCase ''underlined'' = ''underlined''" by code_simp
  have m: "methodNamed ''convert_h1'' = None" "methodNamed ''convert_h2'' = None"
    by code_simp+
  have h: "htmlHeadingRe ''h1''" "htmlHeadingRe ''h2''" by code_simp+
  have d: "nat (digitValue CHR ''1'') = 1" "nat (digitValue CHR ''2'') = 2"
    by code_simp+
  have f: "funcNameOf ''h1'' node = ''convert_h1''" "funcNameOf ''h2'' node = ''convert_h2''"
    by (simp_all add: funcNameOf_def)
  have hn: "convert_hn opts (Suc 0) ctx node text False = []"
    "convert_hn opts 2 ctx node text False = []"
    by (simp_all add: convert_hn_def Let_def t u assms(3) underline_def trimEnd_def)
  from assms(1) show ?thesis
  proof
    assume tag: "lowerTagName node = ''h1''"
    show ?thesis
      using assms(2,4) by (simp add: processTag.simps [of opts ctx node False] tag h m d f hn)
  next
    assume tag: "lowerTagName node = ''h2''"
    show ?thesis
      using assms(2,4) by (simp add: processTag.simps [of opts ctx node False] tag h m d f hn)
  qed
qed

lemma blank_heading_example:
  "processTag defaults [] (Element ''H2'' [] [Element ''SPAN'' [] [Text '' '']]) False = Inr []
   \<and> processTag (defaults \<lparr> heading_style := ''atx'' \<rparr>) []
       (Element ''H2'' [] [Element ''SPAN'' [] [Text '' '']]) False
     = Inr ''\<newline>\<newline>## \<newline>\<newline>''"
  by code_simp

section \<open>Links\<close>

text \<open>
  C4, as amended. For every \<open>a\<close> element outside \<open>pre\<close>, \<open>code\<close>, \<open>kbd\<close> and \<open>samp\<close>
  whose converted link text, trimmed and with every escaped underscore read as an
  underscore, is not empty and equals its \<open>href\<close> attribute, and which has no title (or an
  empty one): when \<open>autolinks\<close> is enabled and \<open>default_title\<close> is not, the rule returns
  the \<open>href\<close> between angle brackets.
\<close>

theorem convert_a_autolink:
  assumes "\<not> (\<exists>fr \<in> set ctx. \<exists>t as. parent fr = ElementC t as
               \<and> toLowerCase t \<in> set [''pre'', ''code'', ''kbd'', ''samp''])"
    and "autolinks opts" and "\<not> default_title opts"
    and "getAttribute el ''href'' = Some href"
    and "\<not> truthy (getAttribute el ''title'')"
    and "trim text \<noteq> []"
    and "replace_escaped_underscores (trim text) = href"
  shows "convert_a opts ctx el text convertAsInline = ''<'' @ href @ ''>''"
proof -
  have "findAncestor ctx [''pre'', ''code'', ''kbd'', ''samp''] = None"
    using assms(1) findAncestor_iff [of ctx "[''pre'', ''code'', ''kbd'', ''samp'']"] by blast
  then show ?thesis
    using assms(2-7) by (simp add: convert_a_def chomp_def Let_def template_def)
qed

theorem convert_a_autolink_witness:
  "convert_a defaults [] (Element ''A'' [(''href'', ''x'')] [Text ''x'']) ''x'' False = ''<x>''"
proof -
  let ?el = "Element ''A'' [(''href'', ''x'')] [Text ''x'']"
  have h1: "\<not> (\<exists>fr \<in> set []. \<exists>t as. parent fr = ElementC t as
               \<and> toLowerCase t \<in> set [''pre'', ''code'', ''kbd'', ''samp''])"
    by simp
  have h2: "autolinks defaults" and h3: "\<not> default_title defaults"
    by (simp_all add: defaults_def)
  have h4: "getAttribute ?el ''href'' = Some ''x''" by simp
  have h5: "\<not> truthy (getAttribute ?el ''title'')" by (simp add: truthy_def)
  have t: "trim ''x'' = ''x''" by code_simp
  have h6: "trim ''x'' \<noteq> []" by (simp add: t)
  have h7: "replace_escaped_underscores (trim ''x'') = ''x''" by (simp add: t)
  show ?thesis
    using convert_a_autolink [OF h1 h2 h3 h4 h5 h6 h7, of False] by simp
qed

text \<open>
  C4 as first stated holds for any options with \<open>autolinks\<close> enabled. With
  \<open>default_title\<close> enabled too, the rule gives the link its \<open>href\<close> as title instead.
\<close>

theorem convert_a_autolink_counterexample:
  "autolinks (defaults \<lparr> default_title := True \<rparr>)
   \<and> findAncestor [] [''pre'', ''code'', ''kbd'', ''samp''] = None
   \<and> getAttribute (Element ''A'' [(''href'', ''x'')] [Text ''x'']) ''href'' = Some ''x''
   \<and> getAttribute (Element ''A'' [(''href'', ''x'')] [Text ''x'']) ''title'' = None
   \<and> convert_a (defaults \<lparr> default_title := True \<rparr>) []
         (Element ''A'' [(''href'', ''x'')] [Text ''x'']) ''x'' False
       = ''[x](x '' @ [CHR 0x22] @ ''x'' @ [CHR 0x22] @ '')''
   \<and> convert_a (defaults \<lparr> default_title := True \<rparr>) []
         (Element ''A'' [(''href'', ''x'')] [Text ''x'']) ''x'' False \<noteq> ''<x>''"
  by code_simp

text \<open>The link of the specification, \<open><a href="x">x</a>\<close> under the default options.\<close>

lemma autolink_example:
  "processTag defaults [] (Element ''A'' [(''href'', ''x'')] [Text ''x'']) False = Inr ''<x>''"
  by code_simp

section \<open>Numeric attributes\<close>

text \<open>
  C2. A \<open>start\<close> or \<open>colspan\<close> attribute that is not a number is to count as absent, and
  conversion is not to raise. The guard of the source, \<open>Number.isNaN\<close> on the attribute's
  string, never holds, so the string is parsed: a \<open>start\<close> of \<open>abc\<close> gives the bullet
  \<open>NaN.\<close> where an absent one gives \<open>1.\<close>, a \<open>colspan\<close> of \<open>abc\<close> gives a cell
  no bar where an absent one gives one, and in a head row it makes the length of the
  separator \<open>NaN\<close>, which raises a \<open>RangeError\<close>.
\<close>

theorem nonnumeric_attributes_are_parsed:
  "processTag defaults []
     (Element ''OL'' [(''start'', ''abc'')] [Element ''LI'' [] [Text ''x'']]) False
     = Inr ''\<newline>\<newline>NaN. x\<newline>''
   \<and> processTag defaults [] (Element ''OL'' [] [Element ''LI'' [] [Text ''x'']]) False
     = Inr ''\<newline>\<newline>1. x\<newline>''
   \<and> convert_td defaults [] (Element ''TD'' [(''colspan'', ''abc'')] [Text ''a'']) ''a'' True
     = Inr '' a''
   \<and> convert_td defaults [] (Element ''TD'' [] [Text ''a'']) ''a'' True = Inr '' a |''
   \<and> processTag defaults []
       (Element ''TABLE'' []
          [Element ''TR'' [] [Element ''TH'' [(''colspan'', ''abc'')] [Text ''a'']]]) False
     = Inl RangeError"
  by code_simp

section \<open>Table rows\<close>

lemma numericAttribute_colspan:
  "colspan cell = Some k \<Longrightarrow> numericAttribute (getAttribute cell ''colspan'') = Num k"
  by (auto simp: colspan_def numericAttribute_def Number_isNaN_def
        split: option.splits if_splits jsnum.splits)

lemma fullColspan_sum:
  "map colspan cells = map Some ks \<Longrightarrow> \<forall>k \<in> set ks. 0 \<le> k \<Longrightarrow> 0 \<le> a \<Longrightarrow>
   a + sum_list ks \<le> 9007199254740992 \<Longrightarrow>
   foldl (\<lambda>sum cell. num_add sum (numericAttribute (getAttribute cell ''colspan'')))
     (Num a) cells = Num (a + sum_list ks)"
proof (induction cells arbitrary: a ks)
  case Nil
  then show ?case by simp
next
  case (Cons cell cells)
  then obtain k ks' where ks: "ks = k # ks'" "colspan cell = Some k"
      "map colspan cells = map Some ks'"
    by (cases ks) auto
  have k: "0 \<le> k" and ks': "\<forall>k \<in> set ks'. 0 \<le> k"
    using Cons.prems(2) by (simp_all add: ks(1))
  have rest: "0 \<le> sum_list ks'"
    using ks' by (simp add: sum_list_nonneg)
  have bound: "a + k + sum_list ks' \<le> 9007199254740992"
    using Cons.prems(4) by (simp add: ks(1))
  have step: "num_add (Num a) (Num k) = Num (a + k)"
    using k rest bound Cons.prems(3) by (simp add: num_add_def exactInteger_def)
  have "0 \<le> a + k" using k Cons.prems(3) by simp
  from Cons.IH [OF ks(3) ks' this bound] show ?case
    by (simp add: ks numericAttribute_colspan step add.assoc)
qed

text \<open>
  C3, as amended. For every row of a table (its parent is an element, and a \<open>tbody\<close> parent
  has a parent) that has no element sibling before it and is a head row (every cell is a
  \<open>th\<close>, or the parent is a \<open>thead\<close> with one element child), and whose cells each have a
  colspan of 0 or more, with a total of at most \<open>2 ^ 24\<close>: \<open>convert_tr\<close> returns the row's
  cells and then a separator line with as many \<open>---\<close> segments as the total colspan.
\<close>

theorem convert_tr_head_row_separator:
  assumes "ctx = fr # up" and "parent fr = ElementC t as"
    and "toLowerCase t = ''tbody'' \<longrightarrow> up \<noteq> []"
    and "previousElementSibling ctx = None"
    and "(\<forall>cell \<in> set (rowCells el). hasTag ''th'' (tagName cell))
         \<or> (hasTag ''thead'' (Some t) \<and> length (children (rebuild fr el)) = 1)"
    and "map colspan (rowCells el) = map Some ks"
    and "\<forall>k \<in> set ks. 0 \<le> k" and "sum_list ks \<le> followedCount"
  shows "convert_tr opts ctx el text convertAsInline =
           Inr (''|'' @ text @ ''\<newline>''
                @ ''| '' @ join '' | '' (replicate (nat (sum_list ks)) ''---'') @ '' |\<newline>'')"
proof -
  have cells: "filter (\<lambda>child. let t = lowerTagName child in t = ''td'' \<or> t = ''th'')
                 (children el) = rowCells el"
    by (simp add: rowCells_def Let_def)
  have nonneg: "0 \<le> sum_list ks"
    using assms(7) by (simp add: sum_list_nonneg)
  have small: "sum_list ks \<le> 16777216"
    using assms(8) by (simp add: followedCount_def)
  have full: "foldl (\<lambda>sum cell. num_add sum (numericAttribute (getAttribute cell ''colspan'')))
                (Num 0) (rowCells el) = Num (sum_list ks)"
    using fullColspan_sum [OF assms(6,7), of 0] small by simp
  have seg: "Array_fill_join (Num (sum_list ks)) ''---'' '' | ''
               = Inr (join '' | '' (replicate (nat (sum_list ks)) ''---''))"
    using nonneg small by (simp add: Array_fill_join_def followedCount_def)
  have missing: "\<exists>b. (case up of [] \<Rightarrow> Inl TypeError
                        | fr2 # up2 \<Rightarrow> Inr (\<not> querySelector (rebuild fr2 (rebuild fr el)) ''thead''))
                     = (Inr b :: error + bool)" if "toLowerCase t = ''tbody''"
    using assms(3) that by (cases up) auto
  show ?thesis
    unfolding convert_tr_def cells
    using assms(1,2,4,5) missing
    by (auto simp: Let_def full seg split: sum.splits)
qed

theorem convert_tr_head_row_separator_witness:
  "convert_tr defaults [\<lparr> parent = ElementC ''TABLE'' [], before = [], after = [] \<rparr>]
     (Element ''TR'' [] [Element ''TH'' [] [Text ''a''], Element ''TH'' [] [Text ''b'']])
     '' a | b |'' False
   = Inr ''| a | b |\<newline>| --- | --- |\<newline>''"
proof -
  let ?fr = "\<lparr> parent = ElementC ''TABLE'' [], before = [], after = [] \<rparr>"
  let ?el = "Element ''TR'' [] [Element ''TH'' [] [Text ''a''], Element ''TH'' [] [Text ''b'']]"
  have h1: "[?fr] = ?fr # []" by simp
  have h2: "parent ?fr = ElementC ''TABLE'' []" by simp
  have t: "toLowerCase ''TABLE'' = ''table''" by code_simp
  have h3: "toLowerCase ''TABLE'' = ''tbody'' \<longrightarrow> ([] :: frame list) \<noteq> []"
    by (simp add: t)
  have h4: "previousElementSibling [?fr] = None" by (simp add: previousElementSibling_def)
  have h5: "(\<forall>cell \<in> set (rowCells ?el). hasTag ''th'' (tagName cell))
         \<or> (hasTag ''thead'' (Some ''TABLE'') \<and> length (children (rebuild ?fr ?el)) = 1)"
    by code_simp
  have h6: "map colspan (rowCells ?el) = map Some [1, 1]" by code_simp
  have h7: "\<forall>k \<in> set [1, 1 :: int]. 0 \<le> k" by simp
  have h8: "sum_list [1, 1 :: int] \<le> followedCount" by (simp add: followedCount_def)
  show ?thesis
    using convert_tr_head_row_separator [OF h1 h2 h3 h4 h5 h6 h7 h8, of defaults "'' a | b |''" False]
    by (simp add: eval_nat_numeral)
qed

text \<open>
  C3 as first stated holds for every table whose first row is a head row. A row behind a
  \<open>caption\<close> has an element sibling before it: the rule does not take it for the first row
  and gives it no separator, in the rule itself and in the conversion of the table. And a
  negative total colspan is no array length: there the rule raises.
\<close>

theorem convert_tr_head_row_separator_counterexample:
  "map (\<lambda>cell. hasTag ''th'' (tagName cell))
     (rowCells (Element ''TR'' [] [Element ''TH'' [] [Text ''a''], Element ''TH'' [] [Text ''b'']]))
     = [True, True]
   \<and> convert_tr defaults
        [\<lparr> parent = ElementC ''TABLE'' [], before = [Element ''CAPTION'' [] [Text ''c'']],
           after = [] \<rparr>]
        (Element ''TR'' [] [Element ''TH'' [] [Text ''a''], Element ''TH'' [] [Text ''b'']])
        '' a | b |'' False
      = Inr ''| a | b |\<newline>''
   \<and> processTag defaults []
        (Element ''TABLE'' []
           [Element ''CAPTION'' [] [Text ''c''],
            Element ''TR'' [] [Element ''TH'' [] [Text ''a''], Element ''TH'' [] [Text ''b'']]])
        False
      = Inr ''\<newline>\<newline>c\<newline>\<newline>| a | b |\<newline>\<newline>''
   \<and> convert_tr defaults [\<lparr> parent = ElementC ''TABLE'' [], before = [], after = [] \<rparr>]
        (Element ''TR'' [] [Element ''TH'' [(''colspan'', ''-1'')] [Text ''a'']]) ''a'' False
      = Inl RangeError"
  by code_simp

text \<open>The table of the specification: one row of two \<open>th\<close> cells, default options.\<close>

lemma table_example:
  "processTag defaults []
     (Element ''TABLE'' []
        [Element ''TR'' [] [Element ''TH'' [] [Text ''a''], Element ''TH'' [] [Text ''b'']]]) False
   = Inr ''\<newline>\<newline>| a | b |\<newline>| --- | --- |\<newline>\<newline>''"
  by code_simp

section \<open>The inline flag\<close>




text \<open>The flag turns on below a table cell: the calls made for a \<open>td\<close> processed with the
  flag false.\<close>

lemma inline_flag_turns_on:
  "map (\<lambda>(childCtx, child, flag). (lowerTagName child, flag))
     (callsOfTag defaults []
        (Element ''TD'' [] [Element ''P'' [] [Element ''B'' [] [Text ''x'']]]) False)
   = [(''p'', True), (''b'', True)]"
  by code_simp

end
